theory Spec2Isabelle
  imports Complex_Main
begin

section \<open>Data model (types.ts)\<close>

text \<open>
  JavaScript numbers are modelled as mathematical reals: rounding error, NaN and the
  infinities of IEEE doubles are outside the model.  Tile coordinates are integers (the
  level generator only produces integer cells), so the string key
  \<^verbatim>\<open>`${x},${z}`\<close> of the tile map becomes the pair of integers itself.
\<close>

record Vector3 =
  vec_x :: real
  vec_y :: real
  vec_z :: real

datatype TileType = FAIRWAY | ROUGH | SAND | WATER | GREEN | GRAVEL | TREE | OBSTACLE | EMPTY

record Tile =
  tile_x :: int
  tile_z :: int
  height :: real
  tile_type :: TileType

record BallState =
  position :: Vector3
  velocity :: Vector3
  isMoving :: bool
  inHole :: bool
  lastStablePosition :: Vector3

record Level =
  tiles :: "Tile list"
  startPosition :: Vector3
  holePosition :: Vector3
  par :: nat

record PhysicsConfig =
  gravity :: real
  dragAir :: real
  frictionGround :: real
  frictionSand :: real
  frictionGreen :: real
  frictionGravel :: real
  frictionRough :: real
  restitution :: real
  maxVelocity :: real
  minVelocityToStop :: real

datatype GamePhase = AIMING | EXECUTING | IDLE | HOLED | LEVEL_COMPLETE | OUT_OF_BOUNDS | GAME_OVER

type_synonym TileMap = "int \<times> int \<Rightarrow> Tile option"

section \<open>Constants (constants.ts)\<close>

definition PHYSICS_CONFIG :: PhysicsConfig where
  "PHYSICS_CONFIG =
     \<lparr> gravity = 35, dragAir = 0.8, frictionGround = 0.4, frictionSand = 8,
       frictionGreen = 0.15, frictionGravel = 5, frictionRough = 0.8, restitution = 0.4,
       maxVelocity = 80, minVelocityToStop = 0.2 \<rparr>"

section \<open>Vector arithmetic and the terrain index (physicsEngine.ts)\<close>

definition zeroVector :: Vector3 where
  "zeroVector = \<lparr> vec_x = 0, vec_y = 0, vec_z = 0 \<rparr>"

definition addVectors :: "Vector3 \<Rightarrow> Vector3 \<Rightarrow> Vector3" where
  "addVectors v1 v2 =
     \<lparr> vec_x = vec_x v1 + vec_x v2, vec_y = vec_y v1 + vec_y v2, vec_z = vec_z v1 + vec_z v2 \<rparr>"

definition scaleVector :: "Vector3 \<Rightarrow> real \<Rightarrow> Vector3" where
  "scaleVector v s = \<lparr> vec_x = vec_x v * s, vec_y = vec_y v * s, vec_z = vec_z v * s \<rparr>"

definition magnitude :: "Vector3 \<Rightarrow> real" where
  "magnitude v = sqrt (vec_x v * vec_x v + vec_y v * vec_y v + vec_z v * vec_z v)"

definition normalizeVector :: "Vector3 \<Rightarrow> Vector3" where
  "normalizeVector v =
     (let m = magnitude v in if m = 0 then zeroVector else scaleVector v (1 / m))"

text \<open>\<^verbatim>\<open>Math.round\<close> rounds to the nearest integer, halves towards plus infinity.\<close>

definition Math_round :: "real \<Rightarrow> int" where
  "Math_round r = \<lfloor>r + 1 / 2\<rfloor>"

definition tileKey :: "Vector3 \<Rightarrow> int \<times> int" where
  "tileKey p = (Math_round (vec_x p), Math_round (vec_z p))"

text \<open>
  \<^verbatim>\<open>tiles.forEach(t => map.set(`${t.x},${t.z}`, t))\<close>: a later tile with the same
  coordinates overwrites an earlier one.
\<close>

definition buildTileMap :: "Tile list \<Rightarrow> TileMap" where
  "buildTileMap ts = fold (\<lambda>t m. m((tile_x t, tile_z t) \<mapsto> t)) ts Map.empty"

text \<open>The argument is \<open>None\<close> where the source passes \<^verbatim>\<open>undefined\<close> (no tile).\<close>

fun getFrictionForTile :: "TileType option \<Rightarrow> PhysicsConfig \<Rightarrow> real" where
  "getFrictionForTile (Some SAND) config = frictionSand config"
| "getFrictionForTile (Some GREEN) config = frictionGreen config"
| "getFrictionForTile (Some ROUGH) config = frictionRough config"
| "getFrictionForTile (Some GRAVEL) config = frictionGravel config"
| "getFrictionForTile (Some FAIRWAY) config = frictionGround config"
| "getFrictionForTile (Some WATER) config = 0.5"
| "getFrictionForTile _ config = frictionGround config"

section \<open>The physics step \<^verbatim>\<open>calculateNextState\<close>\<close>

subsection \<open>1. Gravity, drag and semi-implicit Euler integration\<close>

definition integrate :: "Vector3 \<Rightarrow> Vector3 \<Rightarrow> real \<Rightarrow> PhysicsConfig \<Rightarrow> Vector3 \<times> Vector3" where
  "integrate pos vel dt config =
     (let forces = \<lparr> vec_x = 0 - vec_x vel * dragAir config,
                      vec_y = - gravity config - vec_y vel * dragAir config,
                      vec_z = 0 - vec_z vel * dragAir config \<rparr>;
          newVel = addVectors vel (scaleVector forces dt);
          newPos = addVectors pos (scaleVector newVel dt)
      in (newPos, newVel))"

subsection \<open>2. Collision with trees and obstacles\<close>

definition checkRadius :: int where
  "checkRadius = 2"

text \<open>The \<open>(i, j)\<close> pairs of the two nested loops, in the order the loops visit them.\<close>

definition scanOffsets :: "(int \<times> int) list" where
  "scanOffsets =
     concat (map (\<lambda>i. map (\<lambda>j. (i, j)) [- checkRadius..checkRadius]) [- checkRadius..checkRadius])"

definition colliderRadius :: "Tile \<Rightarrow> real" where
  "colliderRadius obs = (if tile_type obs = TREE then 0.35 else 0.45)"

definition ballRadius :: real where
  "ballRadius = 0.15"

definition minDist :: "Tile \<Rightarrow> real" where
  "minDist obs = colliderRadius obs + ballRadius"

text \<open>
  The horizontal collision normal of the ball at \<open>newPos\<close> against the tile \<open>obs\<close>:
  \<open>(nx, nz)\<close> of the source.
\<close>

definition collisionNormal :: "Tile \<Rightarrow> Vector3 \<Rightarrow> real \<times> real" where
  "collisionNormal obs newPos =
     (let dx = vec_x newPos - real_of_int (tile_x obs);
          dz = vec_z newPos - real_of_int (tile_z obs);
          dist = sqrt (dx * dx + dz * dz)
      in (if dist > 0 then dx / dist else 1, if dist > 0 then dz / dist else 0))"

text \<open>The collision test: the tile is not skipped as flown over, and the ball penetrates it.\<close>

definition collisionFires :: "Tile \<Rightarrow> Vector3 \<Rightarrow> bool" where
  "collisionFires obs newPos =
     (let dx = vec_x newPos - real_of_int (tile_x obs);
          dz = vec_z newPos - real_of_int (tile_z obs)
      in \<not> vec_y newPos > height obs + 3 \<and> dx * dx + dz * dz < minDist obs * minDist obs)"

text \<open>The body of the inner loop for a tile \<open>obs\<close> that is a tree or an obstacle.\<close>

definition collideObstacle :: "Tile \<Rightarrow> Vector3 \<times> Vector3 \<Rightarrow> Vector3 \<times> Vector3" where
  "collideObstacle obs pv =
     (let newPos = fst pv; newVel = snd pv in
      if collisionFires obs newPos then
        (let dx = vec_x newPos - real_of_int (tile_x obs);
             dz = vec_z newPos - real_of_int (tile_z obs);
             dist = sqrt (dx * dx + dz * dz);
             nx = fst (collisionNormal obs newPos);
             nz = snd (collisionNormal obs newPos);
             pushOutDist = (minDist obs - dist) + 0.01;
             newPos' = newPos \<lparr> vec_x := vec_x newPos + nx * pushOutDist,
                                 vec_z := vec_z newPos + nz * pushOutDist \<rparr>;
             dot = vec_x newVel * nx + vec_z newVel * nz
         in if dot < 0
            then (newPos', newVel \<lparr> vec_x := ((vec_x newVel - 2 * dot * nx) * 0.7) * 0.9,
                                      vec_z := ((vec_z newVel - 2 * dot * nz) * 0.7) * 0.9 \<rparr>)
            else (newPos', newVel))
      else pv)"

definition collideAt :: "TileMap \<Rightarrow> int \<times> int \<Rightarrow> Vector3 \<times> Vector3 \<Rightarrow> Vector3 \<times> Vector3" where
  "collideAt tileMap key pv =
     (case tileMap key of
        None \<Rightarrow> pv
      | Some obs \<Rightarrow>
          if tile_type obs = TREE \<or> tile_type obs = OBSTACLE then collideObstacle obs pv else pv)"

text \<open>
  The scan: \<open>cx\<close> and \<open>cz\<close> are computed once from the integrated position, and the
  position and velocity are threaded through the 25 neighbouring cells.
\<close>

definition collisions :: "TileMap \<Rightarrow> Vector3 \<times> Vector3 \<Rightarrow> Vector3 \<times> Vector3" where
  "collisions tileMap pv =
     (let cx = Math_round (vec_x (fst pv)); cz = Math_round (vec_z (fst pv))
      in fold (\<lambda>ij. collideAt tileMap (cx + fst ij, cz + snd ij)) scanOffsets pv)"

subsection \<open>3. Ground and terrain interaction\<close>

definition horizontalSpeed :: "Vector3 \<Rightarrow> real" where
  "horizontalSpeed v = magnitude \<lparr> vec_x = vec_x v, vec_y = 0, vec_z = vec_z v \<rparr>"

definition floorHeightAt :: "TileMap \<Rightarrow> Vector3 \<Rightarrow> real" where
  "floorHeightAt tileMap p = (case tileMap (tileKey p) of Some t \<Rightarrow> height t | None \<Rightarrow> - 10)"

definition verticalBounce :: "PhysicsConfig \<Rightarrow> Vector3 \<Rightarrow> Vector3" where
  "verticalBounce config newVel =
     (if \<bar>vec_y newVel\<bar> > 0.5
      then newVel \<lparr> vec_y := - vec_y newVel * restitution config \<rparr>
      else newVel \<lparr> vec_y := 0 \<rparr>)"

definition groundFriction :: "TileType option \<Rightarrow> real \<Rightarrow> PhysicsConfig \<Rightarrow> Vector3 \<Rightarrow> Vector3" where
  "groundFriction tileType dt config newVel =
     (if vec_y newVel = 0 then
        (let mu = getFrictionForTile tileType config;
             frictionMag = mu * gravity config * dt;
             speed = horizontalSpeed newVel
         in if speed > 0 then
              (if speed \<le> frictionMag
               then newVel \<lparr> vec_x := 0, vec_z := 0 \<rparr>
               else (let factor = (speed - frictionMag) / speed
                     in newVel \<lparr> vec_x := vec_x newVel * factor, vec_z := vec_z newVel * factor \<rparr>))
            else newVel)
      else
        (let nearGroundDrag = 1.0 * dt
         in newVel \<lparr> vec_x := vec_x newVel * (1 - nearGroundDrag),
                      vec_z := vec_z newVel * (1 - nearGroundDrag) \<rparr>))"

definition groundResponse ::
  "TileMap \<Rightarrow> real \<Rightarrow> PhysicsConfig \<Rightarrow> Vector3 \<times> Vector3 \<Rightarrow> Vector3 \<times> Vector3 \<times> string option" where
  "groundResponse tileMap dt config pv =
     (let newPos = fst pv; newVel = snd pv;
          finalTile = tileMap (tileKey newPos);
          floorHeight = floorHeightAt tileMap newPos
      in if vec_y newPos \<le> floorHeight then
           (let newPos' = newPos \<lparr> vec_y := floorHeight \<rparr> in
            if map_option tile_type finalTile = Some WATER
            then (newPos', zeroVector, Some ''WATER'')
            else (newPos',
                  groundFriction (map_option tile_type finalTile) dt config
                    (verticalBounce config newVel),
                  None))
         else (newPos, newVel, None))"

definition calculateNextState ::
  "Vector3 \<Rightarrow> Vector3 \<Rightarrow> real \<Rightarrow> PhysicsConfig \<Rightarrow> TileMap \<Rightarrow> Vector3 \<times> Vector3 \<times> string option" where
  "calculateNextState pos vel dt config tileMap =
     groundResponse tileMap dt config (collisions tileMap (integrate pos vel dt config))"

section \<open>The trajectory predictor \<^verbatim>\<open>predictTrajectory\<close>\<close>

text \<open>\<^verbatim>\<open>h || 0\<close> on an optional number: 0 for \<^verbatim>\<open>undefined\<close> and for the falsy 0.\<close>

fun orZero :: "real option \<Rightarrow> real" where
  "orZero None = 0"
| "orZero (Some h) = (if h = 0 then 0 else h)"

text \<open>\<^verbatim>\<open>tileMap.get(key)?.height || 0\<close>: the floor the predictor and the shot loop use.\<close>

definition heightOrZero :: "TileMap \<Rightarrow> Vector3 \<Rightarrow> real" where
  "heightOrZero tileMap p = orZero (map_option height (tileMap (tileKey p)))"

text \<open>
  The \<^verbatim>\<open>for\<close> loop of the predictor; \<open>path\<close> is the array the loop pushes to, and the
  value is the array when the loop is left.
\<close>

function predictLoop ::
  "nat \<Rightarrow> nat \<Rightarrow> real \<Rightarrow> PhysicsConfig \<Rightarrow> TileMap \<Rightarrow> Vector3 list \<Rightarrow> Vector3 \<Rightarrow> Vector3 \<Rightarrow> Vector3 list" where
  "predictLoop i steps dt config tileMap path currentPos currentVel =
     (if i < steps then
        (let res = calculateNextState currentPos currentVel dt config tileMap;
             pos = fst res; vel = fst (snd res);
             floor_h = heightOrZero tileMap currentPos
         in if vec_y pos \<le> floor_h + 0.05 \<and> vec_y currentVel < 0
            then path @ [pos \<lparr> vec_y := floor_h \<rparr>]
            else (let path' = path @ [pos] in
                  if vec_y pos \<le> floor_h \<and> \<bar>vec_y vel\<bar> < 0.1 \<and> i > 0
                  then path'
                  else predictLoop (i + 1) steps dt config tileMap path' pos vel))
      else path)"
  by pat_completeness auto
termination
  by (relation "measure (\<lambda>(i, steps, dt, config, tileMap, path, currentPos, currentVel). steps - i)") auto

declare predictLoop.simps [simp del]

definition predictTrajectory ::
  "Vector3 \<Rightarrow> Vector3 \<Rightarrow> PhysicsConfig \<Rightarrow> Tile list \<Rightarrow> nat \<Rightarrow> real \<Rightarrow> Vector3 list" where
  "predictTrajectory startPos startVel config levelTiles steps dt =
     predictLoop 0 steps dt config (buildTileMap levelTiles) [startPos] startPos startVel"

section \<open>The shot simulation loop (\<^verbatim>\<open>updatePhysics\<close> in App.tsx)\<close>

definition SUB_STEPS :: nat where
  "SUB_STEPS = 8"

text \<open>
  The sub-step loop of the state updater, run for \<open>n\<close> more iterations on the copy
  \<open>currentState\<close>.  Every \<^verbatim>\<open>break\<close> of the source returns the state at once.
  The configuration is the constant \<open>PHYSICS_CONFIG\<close> in the source and a parameter here.
\<close>

fun subStepLoop ::
  "PhysicsConfig \<Rightarrow> TileMap \<Rightarrow> Vector3 \<Rightarrow> real \<Rightarrow> nat \<Rightarrow> BallState \<Rightarrow> BallState" where
  "subStepLoop config tileMap hole subDt 0 currentState = currentState"
| "subStepLoop config tileMap hole subDt (Suc n) currentState =
     (if \<not> isMoving currentState then currentState
      else if vec_y (position currentState) < - 10
      then currentState \<lparr> isMoving := False, velocity := zeroVector \<rparr>
      else
        (let res = calculateNextState (position currentState) (velocity currentState)
                     subDt config tileMap;
             pos = fst res; vel = fst (snd res); collision = snd (snd res)
         in if collision = Some ''WATER''
            then currentState \<lparr> position := pos, velocity := vel, isMoving := False \<rparr>
            else
              (let speed = magnitude vel;
                   isBasicallyStopped =
                     (speed < minVelocityToStop config
                      \<and> \<bar>vec_y pos - heightOrZero tileMap pos\<bar> < 0.1);
                   distToHole = magnitude \<lparr> vec_x = vec_x pos - vec_x hole, vec_y = 0,
                                            vec_z = vec_z pos - vec_z hole \<rparr>;
                   inHole' = (if distToHole < 0.3 \<and> speed < 5 then True
                              else inHole currentState);
                   updated = currentState
                     \<lparr> position := (if inHole' then hole else pos),
                       velocity := (if inHole' \<or> isBasicallyStopped then zeroVector else vel),
                       isMoving := (\<not> isBasicallyStopped \<and> \<not> inHole'),
                       inHole := inHole' \<rparr>
               in if inHole' then updated
                  else subStepLoop config tileMap hole subDt n updated)))"

text \<open>The state updater passed to \<^verbatim>\<open>setBallState\<close> for a frame of clamped length \<open>dt\<close>.\<close>

definition updateBall ::
  "PhysicsConfig \<Rightarrow> TileMap \<Rightarrow> Vector3 \<Rightarrow> real \<Rightarrow> BallState \<Rightarrow> BallState" where
  "updateBall config tileMap hole dt prev =
     subStepLoop config tileMap hole (dt / real SUB_STEPS) SUB_STEPS prev"

section \<open>The application state and its handlers (App.tsx)\<close>

text \<open>
  The React state of \<^verbatim>\<open>App\<close> that the handlers read and write, the ref
  \<^verbatim>\<open>lastTimeRef\<close>, and the number of \<^verbatim>\<open>setTimeout(resetBall, 1000)\<close> timers that
  have been started and have not fired yet.  The tile map is memoised from the level.
\<close>

record Game =
  level :: Level
  ballState :: BallState
  gamePhase :: GamePhase
  lives :: int
  levelScore :: nat
  isPaused :: bool
  lastTime :: "real option"
  pendingResets :: nat

definition STARTING_LIVES :: int where
  "STARTING_LIVES = 5"

definition tileMapOf :: "Game \<Rightarrow> TileMap" where
  "tileMapOf g = buildTileMap (tiles (level g))"

definition freshBall :: "Level \<Rightarrow> BallState" where
  "freshBall lvl =
     \<lparr> position = startPosition lvl, velocity = zeroVector, isMoving = False,
       inHole = False, lastStablePosition = startPosition lvl \<rparr>"


definition resetBall :: "Game \<Rightarrow> Game" where
  "resetBall g =
     g \<lparr> ballState := (ballState g)
           \<lparr> position := lastStablePosition (ballState g), velocity := zeroVector,
             isMoving := False \<rparr>,
         gamePhase := AIMING \<rparr>"

text \<open>The level is drawn at random by \<^verbatim>\<open>generateLevel\<close>; here it is an argument.\<close>

definition handleRestart :: "Level \<Rightarrow> Game \<Rightarrow> Game" where
  "handleRestart newLevel g =
     g \<lparr> level := newLevel, ballState := freshBall newLevel, lives := STARTING_LIVES,
         levelScore := 0, gamePhase := AIMING, isPaused := False \<rparr>"

definition handleNextLevel :: "Level \<Rightarrow> Game \<Rightarrow> Game" where
  "handleNextLevel newLevel g =
     g \<lparr> level := newLevel, ballState := freshBall newLevel, lives := STARTING_LIVES,
         gamePhase := AIMING, isPaused := False \<rparr>"

definition handleShoot :: "Vector3 \<Rightarrow> Game \<Rightarrow> Game" where
  "handleShoot v g =
     (if gamePhase g \<noteq> AIMING then g
      else g \<lparr> lives := lives g - 1,
               ballState := (ballState g)
                 \<lparr> velocity := v, isMoving := True,
                   lastStablePosition := position (ballState g) \<rparr>,
               gamePhase := EXECUTING \<rparr>)"

text \<open>The animation frame callback at timestamp \<open>time\<close> (milliseconds).\<close>

definition updatePhysics :: "real \<Rightarrow> Game \<Rightarrow> Game" where
  "updatePhysics time g =
     (case lastTime g of
        None \<Rightarrow> g
      | Some lastT \<Rightarrow>
          (let dt = min ((time - lastT) / 1000) 0.1
           in if \<not> isPaused g \<and> isMoving (ballState g)
              then g \<lparr> ballState :=
                         updateBall PHYSICS_CONFIG (tileMapOf g) (holePosition (level g)) dt
                           (ballState g) \<rparr>
              else g))
     \<lparr> lastTime := Some time \<rparr>"

text \<open>
  The phase transition effect.  Starting the timer is recorded in \<open>pendingResets\<close>; when
  it fires, \<open>resetBall\<close> runs.
\<close>

definition outOfBounds :: "Game \<Rightarrow> bool" where
  "outOfBounds g =
     (case tileMapOf g (tileKey (position (ballState g))) of
        None \<Rightarrow> True
      | Some currentTile \<Rightarrow>
          tile_type currentTile = WATER \<or> vec_y (position (ballState g)) < - 5)"

definition phaseTransition :: "Game \<Rightarrow> Game" where
  "phaseTransition g =
     (if gamePhase g = EXECUTING then
        (if inHole (ballState g)
         then g \<lparr> levelScore := levelScore g + 1, gamePhase := LEVEL_COMPLETE \<rparr>
         else if \<not> isMoving (ballState g) then
           (if outOfBounds g
            then g \<lparr> gamePhase := OUT_OF_BOUNDS, pendingResets := pendingResets g + 1 \<rparr>
            else if lives g \<le> 0 then g \<lparr> gamePhase := GAME_OVER \<rparr>
            else g \<lparr> gamePhase := AIMING \<rparr>)
         else g)
      else g)"

definition timerFires :: "Game \<Rightarrow> Game" where
  "timerFires g =
     (if pendingResets g = 0 then g
      else resetBall (g \<lparr> pendingResets := pendingResets g - 1 \<rparr>))"

text \<open>What can happen to the running application, one event at a time.\<close>

datatype Event =
    Shoot Vector3
  | Frame real
  | EffectRuns
  | TimerFires
  | Restart Level
  | NextLevel Level
  | TogglePause

fun applyEvent :: "Event \<Rightarrow> Game \<Rightarrow> Game" where
  "applyEvent (Shoot v) g = handleShoot v g"
| "applyEvent (Frame time) g = updatePhysics time g"
| "applyEvent EffectRuns g = phaseTransition g"
| "applyEvent TimerFires g = timerFires g"
| "applyEvent (Restart lvl) g = handleRestart lvl g"
| "applyEvent (NextLevel lvl) g = handleNextLevel lvl g"
| "applyEvent TogglePause g = g \<lparr> isPaused := \<not> isPaused g \<rparr>"


section \<open>Properties of runs\<close>

text \<open>
  A run in which no reset timer fires while the ball is in the hole.  (The timer is started
  on the way to OUT_OF_BOUNDS, where the ball is not in the hole, and is not cancelled by
  a restart.)
\<close>

fun noResetWhileHoled :: "Event list \<Rightarrow> Game \<Rightarrow> bool" where
  "noResetWhileHoled [] g = True"
| "noResetWhileHoled (e # es) g =
     ((e = TimerFires \<longrightarrow> \<not> inHole (ballState g)) \<and> noResetWhileHoled es (applyEvent e g))"

text \<open>
  A run in which every reset timer fires while the phase is still OUT_OF_BOUNDS, that is,
  with no restart between the way out of bounds and the reset.
\<close>

fun resetsInPhase :: "Event list \<Rightarrow> Game \<Rightarrow> bool" where
  "resetsInPhase [] g = True"
| "resetsInPhase (e # es) g =
     ((e = TimerFires \<longrightarrow> gamePhase g = OUT_OF_BOUNDS) \<and> resetsInPhase es (applyEvent e g))"

text \<open>
  The invariant of the ball that the sub-step loop keeps: a ball that does not move has
  zero velocity, and a ball in the hole is at the hole, with zero velocity, and does not
  move.
\<close>

definition settled :: "Vector3 \<Rightarrow> BallState \<Rightarrow> bool" where
  "settled hole b =
     ((\<not> isMoving b \<longrightarrow> velocity b = zeroVector)
      \<and> (inHole b \<longrightarrow> position b = hole \<and> velocity b = zeroVector \<and> \<not> isMoving b))"

text \<open>
  The invariant of the application that such runs keep: the ball is settled, it is in
  the hole only in the phases EXECUTING and LEVEL_COMPLETE, and it moves only in the
  phase EXECUTING.
\<close>

definition consistent :: "Game \<Rightarrow> bool" where
  "consistent g =
     (settled (holePosition (level g)) (ballState g)
      \<and> (inHole (ballState g) \<longrightarrow> gamePhase g = EXECUTING \<or> gamePhase g = LEVEL_COMPLETE)
      \<and> (isMoving (ballState g) \<longrightarrow> gamePhase g = EXECUTING))"

section \<open>Basic facts about the step\<close>

lemma scanOffsets_eq:
  "scanOffsets =
     [(-2,-2), (-2,-1), (-2,0), (-2,1), (-2,2),
      (-1,-2), (-1,-1), (-1,0), (-1,1), (-1,2),
      (0,-2), (0,-1), (0,0), (0,1), (0,2),
      (1,-2), (1,-1), (1,0), (1,1), (1,2),
      (2,-2), (2,-1), (2,0), (2,1), (2,2)]"
proof -
  have "[- 2..2::int] = [-2, -1, 0, 1, 2]"
    by (simp add: upto.simps)
  then show ?thesis
    by (simp add: scanOffsets_def checkRadius_def)
qed

lemma fold_identity:
  "(\<And>a s. a \<in> set xs \<Longrightarrow> f a s = s) \<Longrightarrow> fold f xs s = s"
  by (induction xs arbitrary: s) auto

lemma collisions_no_obstacle:
  assumes "\<And>k t. tileMap k = Some t \<Longrightarrow> tile_type t \<noteq> TREE \<and> tile_type t \<noteq> OBSTACLE"
  shows "collisions tileMap pv = pv"
proof -
  have "collideAt tileMap k s = s" for k s
    using assms by (auto simp: collideAt_def split: option.splits)
  then show ?thesis
    by (simp add: collisions_def Let_def fold_identity)
qed

lemma buildTileMap_single:
  "buildTileMap [t] = [(tile_x t, tile_z t) \<mapsto> t]"
  by (simp add: buildTileMap_def)

lemma buildTileMap_Nil:
  "buildTileMap [] = Map.empty"
  by (simp add: buildTileMap_def)

text \<open>
  C7 (Scenario A).  One step from \<open>(0, 0.15, 0)\<close> at rest over flat fairway of height 0,
  with gravity 35 and \<open>dt = 1/60\<close>: the returned velocity points downwards and the
  returned position is below 0.15.  The velocity is updated before the position.
\<close>

theorem scenario_A_integration_order:
  assumes "gravity config = 35"
    and "\<forall>k t. tileMap k = Some t \<longrightarrow> tile_type t = FAIRWAY \<and> height t = 0"
  shows "vec_y (fst (snd (calculateNextState \<lparr>vec_x = 0, vec_y = 0.15, vec_z = 0\<rparr>
                       \<lparr>vec_x = 0, vec_y = 0, vec_z = 0\<rparr> (1 / 60) config tileMap))) < 0
       \<and> vec_y (fst (calculateNextState \<lparr>vec_x = 0, vec_y = 0.15, vec_z = 0\<rparr>
                       \<lparr>vec_x = 0, vec_y = 0, vec_z = 0\<rparr> (1 / 60) config tileMap)) < 0.15"
proof -
  let ?p = "\<lparr>vec_x = 0, vec_y = 0.15, vec_z = 0\<rparr>"
  let ?v = "\<lparr>vec_x = 0, vec_y = 0, vec_z = 0\<rparr>"
  have int: "integrate ?p ?v (1 / 60) config =
      (\<lparr>vec_x = 0, vec_y = 0.15 - 35 / 3600, vec_z = 0\<rparr>, \<lparr>vec_x = 0, vec_y = - (35 / 60), vec_z = 0\<rparr>)"
    using assms(1) by (simp add: integrate_def Let_def addVectors_def scaleVector_def)
  have col: "collisions tileMap pv = pv" for pv
    using assms(2) by (intro collisions_no_obstacle) auto
  have fl: "floorHeightAt tileMap q \<le> 0" for q
  proof (cases "tileMap (tileKey q)")
    case None
    then show ?thesis by (simp add: floorHeightAt_def)
  next
    case (Some t)
    with assms(2) have "height t = 0" by blast
    with Some show ?thesis by (simp add: floorHeightAt_def)
  qed
  have "\<not> (0.15 - 35 / 3600 :: real) \<le> floorHeightAt tileMap \<lparr>vec_x = 0, vec_y = 0.15 - 35 / 3600, vec_z = 0\<rparr>"
    using fl [of "\<lparr>vec_x = 0, vec_y = 0.15 - 35 / 3600, vec_z = 0\<rparr>"] by simp
  then have "groundResponse tileMap (1 / 60) config
        (\<lparr>vec_x = 0, vec_y = 0.15 - 35 / 3600, vec_z = 0\<rparr>, \<lparr>vec_x = 0, vec_y = - (35 / 60), vec_z = 0\<rparr>) =
      (\<lparr>vec_x = 0, vec_y = 0.15 - 35 / 3600, vec_z = 0\<rparr>, \<lparr>vec_x = 0, vec_y = - (35 / 60), vec_z = 0\<rparr>, None)"
    by (simp add: groundResponse_def Let_def)
  then have "calculateNextState ?p ?v (1 / 60) config tileMap =
      (\<lparr>vec_x = 0, vec_y = 0.15 - 35 / 3600, vec_z = 0\<rparr>, \<lparr>vec_x = 0, vec_y = - (35 / 60), vec_z = 0\<rparr>, None)"
    unfolding calculateNextState_def int col by simp
  then show ?thesis by simp
qed

theorem scenario_A_integration_order_witness:
  "gravity PHYSICS_CONFIG = 35
   \<and> buildTileMap [\<lparr>tile_x = 0, tile_z = 0, height = 0, tile_type = FAIRWAY\<rparr>] (0, 0)
       = Some \<lparr>tile_x = 0, tile_z = 0, height = 0, tile_type = FAIRWAY\<rparr>
   \<and> vec_y (fst (snd (calculateNextState \<lparr>vec_x = 0, vec_y = 0.15, vec_z = 0\<rparr>
                       \<lparr>vec_x = 0, vec_y = 0, vec_z = 0\<rparr> (1 / 60) PHYSICS_CONFIG
                       (buildTileMap [\<lparr>tile_x = 0, tile_z = 0, height = 0, tile_type = FAIRWAY\<rparr>])))) < 0
   \<and> vec_y (fst (calculateNextState \<lparr>vec_x = 0, vec_y = 0.15, vec_z = 0\<rparr>
                       \<lparr>vec_x = 0, vec_y = 0, vec_z = 0\<rparr> (1 / 60) PHYSICS_CONFIG
                       (buildTileMap [\<lparr>tile_x = 0, tile_z = 0, height = 0, tile_type = FAIRWAY\<rparr>]))) < 0.15"
proof -
  have g: "gravity PHYSICS_CONFIG = 35"
    by (simp add: PHYSICS_CONFIG_def)
  have t: "\<forall>k t. buildTileMap [\<lparr>tile_x = 0, tile_z = 0, height = 0, tile_type = FAIRWAY\<rparr>] k = Some t
          \<longrightarrow> tile_type t = FAIRWAY \<and> height t = 0"
    by (auto simp: buildTileMap_single split: if_splits)
  have z: "buildTileMap [\<lparr>tile_x = 0, tile_z = 0, height = 0, tile_type = FAIRWAY\<rparr>] (0, 0)
       = Some \<lparr>tile_x = 0, tile_z = 0, height = 0, tile_type = FAIRWAY\<rparr>"
    by (simp add: buildTileMap_single)
  show ?thesis
    using scenario_A_integration_order [OF g t] g z by blast
qed

section \<open>The configuration field \<open>maxVelocity\<close>\<close>

lemma getFriction_maxVelocity:
  "getFrictionForTile tt (config\<lparr>maxVelocity := m\<rparr>) = getFrictionForTile tt config"
  by (cases "(tt, config)" rule: getFrictionForTile.cases) simp_all

lemma integrate_maxVelocity:
  "integrate pos vel dt (config\<lparr>maxVelocity := m\<rparr>) = integrate pos vel dt config"
  by (simp add: integrate_def)

lemma verticalBounce_maxVelocity:
  "verticalBounce (config\<lparr>maxVelocity := m\<rparr>) v = verticalBounce config v"
  by (simp add: verticalBounce_def)

lemma groundFriction_maxVelocity:
  "groundFriction tt dt (config\<lparr>maxVelocity := m\<rparr>) v = groundFriction tt dt config v"
  by (simp add: groundFriction_def getFriction_maxVelocity)

lemma groundResponse_maxVelocity:
  "groundResponse tileMap dt (config\<lparr>maxVelocity := m\<rparr>) pv = groundResponse tileMap dt config pv"
  by (auto simp: groundResponse_def verticalBounce_maxVelocity groundFriction_maxVelocity Let_def)

lemma calculateNextState_maxVelocity:
  "calculateNextState pos vel dt (config\<lparr>maxVelocity := m\<rparr>) tileMap
     = calculateNextState pos vel dt config tileMap"
  by (simp add: calculateNextState_def integrate_maxVelocity groundResponse_maxVelocity)

lemma predictLoop_maxVelocity:
  "predictLoop i steps dt (config\<lparr>maxVelocity := m\<rparr>) tileMap path currentPos currentVel
     = predictLoop i steps dt config tileMap path currentPos currentVel"
proof (induction i steps dt config tileMap path currentPos currentVel rule: predictLoop.induct)
  case (1 i steps dt config tileMap path currentPos currentVel)
  show ?case
    apply (subst predictLoop.simps)
    apply (subst (2) predictLoop.simps)
    using 1
    by (simp add: calculateNextState_maxVelocity Let_def)
qed

lemma subStepLoop_maxVelocity:
  "subStepLoop (config\<lparr>maxVelocity := m\<rparr>) tileMap hole subDt n st
     = subStepLoop config tileMap hole subDt n st"
  by (induction n arbitrary: st) (simp_all add: calculateNextState_maxVelocity Let_def)

text \<open>
  C9.  Two configurations that differ only in \<open>maxVelocity\<close> give the same physics step,
  the same predicted trajectory and the same frame update of the ball: no operation reads
  the field.
\<close>

theorem maxVelocity_has_no_effect:
  "calculateNextState pos vel dt (config\<lparr>maxVelocity := m\<rparr>) tileMap
     = calculateNextState pos vel dt config tileMap
   \<and> predictTrajectory startPos startVel (config\<lparr>maxVelocity := m\<rparr>) levelTiles steps dt
     = predictTrajectory startPos startVel config levelTiles steps dt
   \<and> updateBall (config\<lparr>maxVelocity := m\<rparr>) tileMap hole dt prev
     = updateBall config tileMap hole dt prev"
  by (simp add: calculateNextState_maxVelocity predictTrajectory_def predictLoop_maxVelocity
      updateBall_def subStepLoop_maxVelocity)

section \<open>Water ends the step and the frame\<close>

lemma tileKey_update_y [simp]:
  "tileKey (p\<lparr>vec_y := h\<rparr>) = tileKey p"
  by (simp add: tileKey_def)

lemma subStepLoop_not_moving:
  "\<not> isMoving st \<Longrightarrow> subStepLoop config tileMap hole subDt n st = st"
  by (cases n) simp_all

lemma updateBall_not_moving:
  "\<not> isMoving st \<Longrightarrow> updateBall config tileMap hole dt st = st"
  by (simp add: updateBall_def subStepLoop_not_moving)

text \<open>
  C4.  When the position after integration and collision is at or below the floor and the
  tile under it is WATER, the step returns the event WATER with zero velocity and the
  position clamped to the floor; a sub-step of the shot loop that gets this result clears
  \<open>isMoving\<close> and returns at once, whatever the number of sub-steps left in the frame.
\<close>

theorem water_is_terminal:
  assumes "collisions tileMap (integrate pos vel dt config) = (newPos, newVel)"
    and "tileMap (tileKey newPos) = Some t"
    and "tile_type t = WATER"
    and "vec_y newPos \<le> height t"
  shows "calculateNextState pos vel dt config tileMap
           = (newPos\<lparr>vec_y := height t\<rparr>, zeroVector, Some ''WATER'')
       \<and> (\<forall>st hole n.
            isMoving st \<and> \<not> vec_y (position st) < - 10 \<and> position st = pos \<and> velocity st = vel
            \<longrightarrow> subStepLoop config tileMap hole dt (Suc n) st
                  = st\<lparr>position := newPos\<lparr>vec_y := height t\<rparr>, velocity := zeroVector,
                       isMoving := False\<rparr>)"
proof -
  have step: "calculateNextState pos vel dt config tileMap
           = (newPos\<lparr>vec_y := height t\<rparr>, zeroVector, Some ''WATER'')"
    using assms by (simp add: calculateNextState_def groundResponse_def floorHeightAt_def Let_def)
  have "subStepLoop config tileMap hole dt (Suc n) st
           = st\<lparr>position := newPos\<lparr>vec_y := height t\<rparr>, velocity := zeroVector, isMoving := False\<rparr>"
    if "isMoving st" and "\<not> vec_y (position st) < - 10"
      and "position st = pos" and "velocity st = vel" for st hole n
    using that step by (simp add: Let_def)
  with step show ?thesis
    by blast
qed

theorem water_is_terminal_witness:
  "collisions (buildTileMap [\<lparr>tile_x = 0, tile_z = 0, height = - 0.5, tile_type = WATER\<rparr>])
       (integrate \<lparr>vec_x = 0, vec_y = - 0.495, vec_z = 0\<rparr> zeroVector (1 / 80) PHYSICS_CONFIG)
     = (\<lparr>vec_x = 0, vec_y = - 0.495 - 35 / 6400, vec_z = 0\<rparr>, \<lparr>vec_x = 0, vec_y = - (35 / 80), vec_z = 0\<rparr>)
   \<and> buildTileMap [\<lparr>tile_x = 0, tile_z = 0, height = - 0.5, tile_type = WATER\<rparr>]
        (tileKey \<lparr>vec_x = 0, vec_y = - 0.495 - 35 / 6400, vec_z = 0\<rparr>)
     = Some \<lparr>tile_x = 0, tile_z = 0, height = - 0.5, tile_type = WATER\<rparr>
   \<and> calculateNextState \<lparr>vec_x = 0, vec_y = - 0.495, vec_z = 0\<rparr> zeroVector (1 / 80) PHYSICS_CONFIG
        (buildTileMap [\<lparr>tile_x = 0, tile_z = 0, height = - 0.5, tile_type = WATER\<rparr>])
     = (\<lparr>vec_x = 0, vec_y = - 0.5, vec_z = 0\<rparr>, zeroVector, Some ''WATER'')
   \<and> subStepLoop PHYSICS_CONFIG
        (buildTileMap [\<lparr>tile_x = 0, tile_z = 0, height = - 0.5, tile_type = WATER\<rparr>])
        \<lparr>vec_x = 5, vec_y = 0, vec_z = 5\<rparr> (1 / 80) (Suc 7)
        \<lparr>position = \<lparr>vec_x = 0, vec_y = - 0.495, vec_z = 0\<rparr>, velocity = zeroVector,
          isMoving = True, inHole = False, lastStablePosition = \<lparr>vec_x = 3, vec_y = 0.15, vec_z = 3\<rparr>\<rparr>
     = \<lparr>position = \<lparr>vec_x = 0, vec_y = - 0.5, vec_z = 0\<rparr>, velocity = zeroVector,
          isMoving = False, inHole = False, lastStablePosition = \<lparr>vec_x = 3, vec_y = 0.15, vec_z = 3\<rparr>\<rparr>"
proof -
  let ?T = "\<lparr>tile_x = 0, tile_z = 0, height = - 0.5, tile_type = WATER\<rparr>"
  let ?tm = "buildTileMap [?T]"
  let ?p = "\<lparr>vec_x = 0, vec_y = - 0.495, vec_z = 0\<rparr>"
  let ?np = "\<lparr>vec_x = 0, vec_y = - 0.495 - 35 / 6400, vec_z = 0\<rparr>"
  let ?nv = "\<lparr>vec_x = 0, vec_y = - (35 / 80), vec_z = 0\<rparr>"
  let ?st = "\<lparr>position = ?p, velocity = zeroVector,
          isMoving = True, inHole = False, lastStablePosition = \<lparr>vec_x = 3, vec_y = 0.15, vec_z = 3\<rparr>\<rparr>"
  have int: "integrate ?p zeroVector (1 / 80) PHYSICS_CONFIG = (?np, ?nv)"
    by (simp add: integrate_def Let_def addVectors_def scaleVector_def zeroVector_def PHYSICS_CONFIG_def)
  have "collisions ?tm pv = pv" for pv
    by (rule collisions_no_obstacle) (auto simp: buildTileMap_single split: if_splits)
  with int have h1: "collisions ?tm (integrate ?p zeroVector (1 / 80) PHYSICS_CONFIG) = (?np, ?nv)"
    by simp
  have h2: "?tm (tileKey ?np) = Some ?T"
    by (simp add: buildTileMap_single tileKey_def Math_round_def)
  have h3: "tile_type ?T = WATER" by simp
  have h4: "vec_y ?np \<le> height ?T" by simp
  note w = water_is_terminal [OF h1 h2 h3 h4]
  from w have c1: "calculateNextState ?p zeroVector (1 / 80) PHYSICS_CONFIG ?tm
       = (?np\<lparr>vec_y := height ?T\<rparr>, zeroVector, Some ''WATER'')"
    by blast
  have st: "isMoving ?st \<and> \<not> vec_y (position ?st) < - 10 \<and> position ?st = ?p \<and> velocity ?st = zeroVector"
    by simp
  from w st have "subStepLoop PHYSICS_CONFIG ?tm \<lparr>vec_x = 5, vec_y = 0, vec_z = 5\<rparr> (1 / 80) (Suc 7) ?st
       = ?st\<lparr>position := ?np\<lparr>vec_y := height ?T\<rparr>, velocity := zeroVector, isMoving := False\<rparr>"
    by blast
  then have c2: "subStepLoop PHYSICS_CONFIG ?tm \<lparr>vec_x = 5, vec_y = 0, vec_z = 5\<rparr> (1 / 80) (Suc 7) ?st
       = \<lparr>position = \<lparr>vec_x = 0, vec_y = - 0.5, vec_z = 0\<rparr>, velocity = zeroVector,
          isMoving = False, inHole = False, lastStablePosition = \<lparr>vec_x = 3, vec_y = 0.15, vec_z = 3\<rparr>\<rparr>"
    by (simp del: subStepLoop.simps)
  show ?thesis
    using h1 h2 c1 c2 by (simp del: subStepLoop.simps)
qed

section \<open>The predictor stops at the first touchdown\<close>

lemma heightOrZero_present:
  "tileMap (tileKey p) = Some t \<Longrightarrow> heightOrZero tileMap p = height t"
  by (simp add: heightOrZero_def)

lemma heightOrZero_absent:
  "tileMap (tileKey p) = None \<Longrightarrow> heightOrZero tileMap p = 0"
  by (simp add: heightOrZero_def)

text \<open>
  C3.  In any iteration of the prediction loop (\<open>i < steps\<close>, with any path collected so
  far): if the stepped position is at or below the floor under the position before the
  step, and the vertical velocity before the step was negative, the loop is left with the
  stepped point, its height set to that floor, as the last element of the returned path.
  The floor is the height of the tile under the position before the step (0 where there
  is no tile).
\<close>

theorem predictor_first_touchdown:
  assumes "i < steps"
    and "calculateNextState currentPos currentVel dt config tileMap = (pos, vel, collision)"
    and "vec_y pos \<le> heightOrZero tileMap currentPos"
    and "vec_y currentVel < 0"
  shows "predictLoop i steps dt config tileMap path currentPos currentVel
           = path @ [pos\<lparr>vec_y := heightOrZero tileMap currentPos\<rparr>]
       \<and> last (predictLoop i steps dt config tileMap path currentPos currentVel)
           = pos\<lparr>vec_y := heightOrZero tileMap currentPos\<rparr>"
proof -
  from assms(3) have "vec_y pos \<le> heightOrZero tileMap currentPos + 0.05"
    by simp
  with assms(1,2,4) show ?thesis
    by (subst predictLoop.simps, subst predictLoop.simps) (simp add: Let_def)
qed

theorem predictor_first_touchdown_witness:
  "(0::nat) < 100
   \<and> calculateNextState \<lparr>vec_x = 0, vec_y = 0.01, vec_z = 0\<rparr> \<lparr>vec_x = 0, vec_y = - 1, vec_z = 0\<rparr>
        0.05 PHYSICS_CONFIG (buildTileMap [\<lparr>tile_x = 0, tile_z = 0, height = 0, tile_type = GREEN\<rparr>])
       = (\<lparr>vec_x = 0, vec_y = 0, vec_z = 0\<rparr>, \<lparr>vec_x = 0, vec_y = 1084 / 1000, vec_z = 0\<rparr>, None)
   \<and> heightOrZero (buildTileMap [\<lparr>tile_x = 0, tile_z = 0, height = 0, tile_type = GREEN\<rparr>])
        \<lparr>vec_x = 0, vec_y = 0.01, vec_z = 0\<rparr> = 0
   \<and> predictTrajectory \<lparr>vec_x = 0, vec_y = 0.01, vec_z = 0\<rparr> \<lparr>vec_x = 0, vec_y = - 1, vec_z = 0\<rparr>
        PHYSICS_CONFIG [\<lparr>tile_x = 0, tile_z = 0, height = 0, tile_type = GREEN\<rparr>] 100 0.05
       = [\<lparr>vec_x = 0, vec_y = 0.01, vec_z = 0\<rparr>, \<lparr>vec_x = 0, vec_y = 0, vec_z = 0\<rparr>]"
proof -
  let ?T = "\<lparr>tile_x = 0, tile_z = 0, height = 0, tile_type = GREEN\<rparr>"
  let ?tm = "buildTileMap [?T]"
  let ?p = "\<lparr>vec_x = 0, vec_y = 0.01, vec_z = 0\<rparr>"
  let ?v = "\<lparr>vec_x = 0, vec_y = - 1, vec_z = 0\<rparr>"
  let ?np = "\<lparr>vec_x = 0, vec_y = 0.01 - 271 / 2000, vec_z = 0\<rparr>"
  let ?nv = "\<lparr>vec_x = 0, vec_y = - (271 / 100), vec_z = 0\<rparr>"
  have int: "integrate ?p ?v 0.05 PHYSICS_CONFIG = (?np, ?nv)"
    by (simp add: integrate_def Let_def addVectors_def scaleVector_def PHYSICS_CONFIG_def)
  have col: "collisions ?tm pv = pv" for pv
    by (rule collisions_no_obstacle) (auto simp: buildTileMap_single split: if_splits)
  have gr: "groundResponse ?tm 0.05 PHYSICS_CONFIG (?np, ?nv)
      = (\<lparr>vec_x = 0, vec_y = 0, vec_z = 0\<rparr>, \<lparr>vec_x = 0, vec_y = 1084 / 1000, vec_z = 0\<rparr>, None)"
    by (simp add: groundResponse_def floorHeightAt_def tileKey_def Math_round_def
        buildTileMap_single verticalBounce_def groundFriction_def PHYSICS_CONFIG_def Let_def)
  have h2: "calculateNextState ?p ?v 0.05 PHYSICS_CONFIG ?tm
      = (\<lparr>vec_x = 0, vec_y = 0, vec_z = 0\<rparr>, \<lparr>vec_x = 0, vec_y = 1084 / 1000, vec_z = 0\<rparr>, None)"
    unfolding calculateNextState_def int col gr ..
  have fl: "heightOrZero ?tm ?p = 0"
    by (simp add: heightOrZero_def tileKey_def Math_round_def buildTileMap_single)
  have h1: "(0::nat) < 100" by simp
  have h3: "vec_y \<lparr>vec_x = 0, vec_y = 0, vec_z = 0::real\<rparr> \<le> heightOrZero ?tm ?p"
    using fl by simp
  have h4: "vec_y ?v < 0" by simp
  from predictor_first_touchdown [OF h1 h2 h3 h4, of "[?p]"]
  have "predictTrajectory ?p ?v PHYSICS_CONFIG [?T] 100 0.05
      = [?p, \<lparr>vec_x = 0, vec_y = 0, vec_z = 0\<rparr>]"
    using fl by (simp add: predictTrajectory_def)
  with h1 h2 fl show ?thesis
    by simp
qed

text \<open>
  The test of the source has a tolerance: the loop is left at the first touchdown as soon
  as the stepped position is no more than 0.05 above the floor.
\<close>

lemma predictor_touchdown_tolerance:
  assumes "i < steps"
    and "calculateNextState currentPos currentVel dt config tileMap = (pos, vel, collision)"
    and "vec_y currentVel < 0"
  shows "predictLoop i steps dt config tileMap path currentPos currentVel
           = path @ [pos\<lparr>vec_y := heightOrZero tileMap currentPos\<rparr>]
         \<longleftrightarrow> vec_y pos \<le> heightOrZero tileMap currentPos + 0.05"
proof (cases "vec_y pos \<le> heightOrZero tileMap currentPos + 0.05")
  case True
  with assms show ?thesis
    by (subst predictLoop.simps) (simp add: Let_def)
next
  case False
  let ?r = "predictLoop (i + 1) steps dt config tileMap (path @ [pos]) pos vel"
  have "predictLoop i steps dt config tileMap path currentPos currentVel
      = (if vec_y pos \<le> heightOrZero tileMap currentPos \<and> \<bar>vec_y vel\<bar> < 0.1 \<and> i > 0
         then path @ [pos] else ?r)"
    using assms False by (subst predictLoop.simps) (simp add: Let_def)
  moreover have "path @ [pos] \<noteq> path @ [pos\<lparr>vec_y := heightOrZero tileMap currentPos\<rparr>]"
  proof
    assume "path @ [pos] = path @ [pos\<lparr>vec_y := heightOrZero tileMap currentPos\<rparr>]"
    then have "vec_y pos = heightOrZero tileMap currentPos"
      by (metis Vector3.select_convs(2) Vector3.surjective Vector3.update_convs(2) append1_eq_conv)
    with False show False by simp
  qed
  moreover have "?r \<noteq> path @ [pos\<lparr>vec_y := heightOrZero tileMap currentPos\<rparr>]"
  proof
    assume eq: "?r = path @ [pos\<lparr>vec_y := heightOrZero tileMap currentPos\<rparr>]"
    have pre: "take (length path + 1) (predictLoop j steps dt config tileMap q p v) = path @ [pos]"
      if "take (length path + 1) q = path @ [pos]" and "length path < length q" for j q p v
      using that
    proof (induction j steps dt config tileMap q p v rule: predictLoop.induct)
      case (1 i steps dt config tileMap path' currentPos currentVel)
      show ?case
        using 1 by (subst predictLoop.simps) (auto simp: Let_def)
    qed
    have "take (length path + 1) ?r = path @ [pos]"
      by (rule pre) simp_all
    with eq have "path @ [pos] = path @ [pos\<lparr>vec_y := heightOrZero tileMap currentPos\<rparr>]"
      by simp
    then have "vec_y pos = heightOrZero tileMap currentPos"
      by (metis Vector3.select_convs(2) Vector3.surjective Vector3.update_convs(2) append1_eq_conv)
    with False show False by simp
  qed
  ultimately show ?thesis
    using False by auto
qed

section \<open>Hole capture\<close>

lemma magnitude_less_iff:
  assumes "0 < c"
  shows "magnitude v < c \<longleftrightarrow> vec_x v * vec_x v + vec_y v * vec_y v + vec_z v * vec_z v < c * c"
proof -
  have "sqrt (c * c) = c"
    using assms by simp
  then have "magnitude v < c \<longleftrightarrow> sqrt (vec_x v * vec_x v + vec_y v * vec_y v + vec_z v * vec_z v) < sqrt (c * c)"
    by (simp add: magnitude_def)
  then show ?thesis
    by (simp only: real_sqrt_less_iff)
qed


lemma magnitude_lessI:
  "0 < c \<Longrightarrow> vec_x v * vec_x v + vec_y v * vec_y v + vec_z v * vec_z v < c * c \<Longrightarrow> magnitude v < c"
  by (simp add: magnitude_less_iff)

text \<open>
  The hole test of a sub-step: it is reached when the step did not report WATER (the loop
  handles that event first and leaves).
\<close>

lemma capture_unless_water:
  assumes "isMoving st"
    and "\<not> vec_y (position st) < - 10"
    and "calculateNextState (position st) (velocity st) subDt config tileMap = (pos, vel, collision)"
    and "collision \<noteq> Some ''WATER''"
    and "magnitude \<lparr>vec_x = vec_x pos - vec_x hole, vec_y = 0, vec_z = vec_z pos - vec_z hole\<rparr> < 0.3"
    and "magnitude vel < 5"
  shows "subStepLoop config tileMap hole subDt (Suc n) st
           = st\<lparr>position := hole, velocity := zeroVector, isMoving := False, inHole := True\<rparr>
       \<and> updateBall config tileMap hole dt'
            (st\<lparr>position := hole, velocity := zeroVector, isMoving := False, inHole := True\<rparr>)
           = st\<lparr>position := hole, velocity := zeroVector, isMoving := False, inHole := True\<rparr>"
  using assms by (simp add: Let_def updateBall_not_moving)

section \<open>Rest detection where there is no tile\<close>

lemma groundResponse_key:
  "tileKey (fst (groundResponse tileMap dt config pv)) = tileKey (fst pv)"
  by (simp add: groundResponse_def Let_def)

lemma groundResponse_water_tile:
  "snd (snd (groundResponse tileMap dt config pv)) = Some ''WATER''
     \<Longrightarrow> tileMap (tileKey (fst pv)) \<noteq> None"
  by (auto simp: groundResponse_def Let_def split: if_splits)

lemma calculateNextState_water_tile:
  assumes "calculateNextState p v dt config tileMap = (pos, vel, Some ''WATER'')"
  shows "tileMap (tileKey pos) \<noteq> None"
proof -
  let ?pv = "collisions tileMap (integrate p v dt config)"
  from assms have g: "groundResponse tileMap dt config ?pv = (pos, vel, Some ''WATER'')"
    by (simp add: calculateNextState_def)
  then have "tileMap (tileKey (fst ?pv)) \<noteq> None"
    using groundResponse_water_tile [of tileMap dt config ?pv] by simp
  moreover have "tileKey pos = tileKey (fst ?pv)"
    using groundResponse_key [of tileMap dt config ?pv] g by simp
  ultimately show ?thesis by simp
qed

text \<open>
  C10.  In a sub-step whose stepped position has no tile under it, the rest check takes the
  floor to be 0 while the physics step takes it to be \<open>- 10\<close>: a ball with stepped speed
  below \<open>minVelocityToStop\<close> and \<open>|y| < 0.1\<close> is declared at rest (not moving, zero
  velocity), and the loop does not move it again.
\<close>

theorem rest_detection_over_absent_tile:
  assumes "isMoving st"
    and "\<not> vec_y (position st) < - 10"
    and "calculateNextState (position st) (velocity st) subDt config tileMap = (pos, vel, collision)"
    and "tileMap (tileKey pos) = None"
    and "magnitude vel < minVelocityToStop config"
    and "\<bar>vec_y pos\<bar> < 0.1"
  shows "heightOrZero tileMap pos = 0
       \<and> floorHeightAt tileMap pos = - 10
       \<and> \<not> isMoving (subStepLoop config tileMap hole subDt (Suc n) st)
       \<and> velocity (subStepLoop config tileMap hole subDt (Suc n) st) = zeroVector"
proof -
  have nw: "collision \<noteq> Some ''WATER''"
    using assms(3,4) calculateNextState_water_tile by blast
  have hz: "heightOrZero tileMap pos = 0"
    using assms(4) by (simp add: heightOrZero_def)
  have fl: "floorHeightAt tileMap pos = - 10"
    using assms(4) by (simp add: floorHeightAt_def)
  have "\<not> isMoving (subStepLoop config tileMap hole subDt (Suc n) st)
      \<and> velocity (subStepLoop config tileMap hole subDt (Suc n) st) = zeroVector"
    using assms(1,2,3,5,6) nw hz by (simp add: Let_def subStepLoop_not_moving)
  then show ?thesis
    using hz fl by simp
qed

theorem rest_detection_over_absent_tile_witness:
  "calculateNextState \<lparr>vec_x = 0, vec_y = 1 / 20, vec_z = 0\<rparr> zeroVector (1 / 800) PHYSICS_CONFIG
       (buildTileMap [])
     = (\<lparr>vec_x = 0, vec_y = 1 / 20 - 7 / 128000, vec_z = 0\<rparr>,
        \<lparr>vec_x = 0, vec_y = - (7 / 160), vec_z = 0\<rparr>, None)
   \<and> buildTileMap [] (tileKey \<lparr>vec_x = 0, vec_y = 1 / 20 - 7 / 128000, vec_z = 0\<rparr>) = None
   \<and> magnitude \<lparr>vec_x = 0, vec_y = - (7 / 160), vec_z = 0\<rparr> < minVelocityToStop PHYSICS_CONFIG
   \<and> \<not> isMoving (subStepLoop PHYSICS_CONFIG (buildTileMap [])
          \<lparr>vec_x = 10, vec_y = 0, vec_z = 0\<rparr> (1 / 800) (Suc 7)
          \<lparr>position = \<lparr>vec_x = 0, vec_y = 1 / 20, vec_z = 0\<rparr>, velocity = zeroVector,
            isMoving = True, inHole = False,
            lastStablePosition = \<lparr>vec_x = 0, vec_y = 1 / 20, vec_z = 0\<rparr>\<rparr>)"
proof -
  let ?tm = "buildTileMap []"
  let ?p = "\<lparr>vec_x = 0, vec_y = 1 / 20, vec_z = 0\<rparr>"
  let ?np = "\<lparr>vec_x = 0, vec_y = 1 / 20 - 7 / 128000, vec_z = 0\<rparr>"
  let ?nv = "\<lparr>vec_x = 0, vec_y = - (7 / 160), vec_z = 0\<rparr>"
  let ?st = "\<lparr>position = ?p, velocity = zeroVector, isMoving = True, inHole = False,
            lastStablePosition = \<lparr>vec_x = 0, vec_y = 1 / 20, vec_z = 0\<rparr>\<rparr>"
  have int: "integrate ?p zeroVector (1 / 800) PHYSICS_CONFIG = (?np, ?nv)"
    by (simp add: integrate_def Let_def addVectors_def scaleVector_def zeroVector_def PHYSICS_CONFIG_def)
  have col: "collisions ?tm pv = pv" for pv
    by (rule collisions_no_obstacle) (simp add: buildTileMap_Nil)
  have gr: "groundResponse ?tm (1 / 800) PHYSICS_CONFIG (?np, ?nv) = (?np, ?nv, None)"
    by (simp add: groundResponse_def floorHeightAt_def buildTileMap_Nil Let_def)
  have step: "calculateNextState ?p zeroVector (1 / 800) PHYSICS_CONFIG ?tm = (?np, ?nv, None)"
    unfolding calculateNextState_def int col gr ..
  have h1: "isMoving ?st" and h2: "\<not> vec_y (position ?st) < - 10"
    by simp_all
  have h3: "calculateNextState (position ?st) (velocity ?st) (1 / 800) PHYSICS_CONFIG ?tm = (?np, ?nv, None)"
    using step by simp
  have h4: "?tm (tileKey ?np) = None"
    by (simp add: buildTileMap_Nil)
  have h5: "magnitude ?nv < minVelocityToStop PHYSICS_CONFIG"
    by (rule magnitude_lessI) (simp_all add: PHYSICS_CONFIG_def)
  have h6: "\<bar>vec_y ?np\<bar> < 0.1"
    by simp
  from rest_detection_over_absent_tile [OF h1 h2 h3 h4 h5 h6, of "\<lparr>vec_x = 10, vec_y = 0, vec_z = 0\<rparr>" 7]
    step h4 h5
  show ?thesis
    by (simp del: subStepLoop.simps)
qed

subsection \<open>Hole capture on the levels of the generator\<close>

lemma groundResponse_water_type:
  "snd (snd (groundResponse tileMap dt config pv)) = Some ''WATER''
     \<Longrightarrow> map_option tile_type (tileMap (tileKey (fst pv))) = Some WATER"
  by (auto simp: groundResponse_def Let_def split: if_splits)

lemma calculateNextState_water_type:
  assumes "calculateNextState p v dt config tileMap = (pos, vel, Some ''WATER'')"
  shows "map_option tile_type (tileMap (tileKey pos)) = Some WATER"
proof -
  let ?pv = "collisions tileMap (integrate p v dt config)"
  from assms have g: "groundResponse tileMap dt config ?pv = (pos, vel, Some ''WATER'')"
    by (simp add: calculateNextState_def)
  then have "map_option tile_type (tileMap (tileKey (fst ?pv))) = Some WATER"
    using groundResponse_water_type [of tileMap dt config ?pv] by simp
  moreover have "tileKey pos = tileKey (fst ?pv)"
    using groundResponse_key [of tileMap dt config ?pv] g by simp
  ultimately show ?thesis by simp
qed

lemma magnitude_ge_abs_x:
  "\<bar>vec_x v\<bar> \<le> magnitude v"
proof -
  have "\<bar>vec_x v\<bar> = sqrt (vec_x v * vec_x v)"
    by simp
  also have "\<dots> \<le> sqrt (vec_x v * vec_x v + vec_y v * vec_y v + vec_z v * vec_z v)"
    by (rule real_sqrt_le_mono) simp
  finally show ?thesis
    by (simp add: magnitude_def)
qed

lemma magnitude_ge_abs_z:
  "\<bar>vec_z v\<bar> \<le> magnitude v"
proof -
  have "\<bar>vec_z v\<bar> = sqrt (vec_z v * vec_z v)"
    by simp
  also have "\<dots> \<le> sqrt (vec_x v * vec_x v + vec_y v * vec_y v + vec_z v * vec_z v)"
    by (rule real_sqrt_le_mono) simp
  finally show ?thesis
    by (simp add: magnitude_def)
qed

lemma Math_round_near:
  assumes "\<bar>r - real_of_int k\<bar> < 0.3"
  shows "Math_round r = k"
  using assms unfolding Math_round_def by (intro floor_unique) (simp_all add: abs_if split: if_splits)

text \<open>
  Where the hole is at the centre of a cell whose tile is not WATER, a step that ends
  closer than 0.3 to the hole does not report WATER: the stepped position rounds to the
  hole cell.
\<close>

lemma no_water_event_near_hole:
  assumes "vec_x hole = real_of_int hx" and "vec_z hole = real_of_int hz"
    and "map_option tile_type (tileMap (hx, hz)) \<noteq> Some WATER"
    and "calculateNextState p v dt config tileMap = (pos, vel, collision)"
    and "magnitude \<lparr>vec_x = vec_x pos - vec_x hole, vec_y = 0, vec_z = vec_z pos - vec_z hole\<rparr> < 0.3"
  shows "collision \<noteq> Some ''WATER''"
proof
  assume w: "collision = Some ''WATER''"
  let ?d = "\<lparr>vec_x = vec_x pos - vec_x hole, vec_y = 0, vec_z = vec_z pos - vec_z hole\<rparr>"
  have "\<bar>vec_x pos - real_of_int hx\<bar> < 0.3"
    using magnitude_ge_abs_x [of ?d] assms(1,5) by simp
  then have x: "Math_round (vec_x pos) = hx"
    by (rule Math_round_near)
  have "\<bar>vec_z pos - real_of_int hz\<bar> < 0.3"
    using magnitude_ge_abs_z [of ?d] assms(2,5) by simp
  then have z: "Math_round (vec_z pos) = hz"
    by (rule Math_round_near)
  from assms(4) w have "map_option tile_type (tileMap (tileKey pos)) = Some WATER"
    using calculateNextState_water_type by blast
  with x z assms(3) show False
    by (auto simp: tileKey_def)
qed

text \<open>
  C1.  The hole is at the centre of a cell whose tile is not WATER: \<^verbatim>\<open>generateLevel\<close>
  makes the hole cell GREEN and puts \<open>holePosition\<close> at its integer coordinates.  In a
  sub-step of a moving ball that is not below the void line, if the stepped position is
  horizontally closer than 0.3 to the hole and the stepped speed is below 5, the ball is
  in the hole, at the hole position, with zero velocity and not moving; the loop is left
  at once, and no later frame changes the ball.
\<close>

theorem hole_capture:
  assumes "isMoving st"
    and "\<not> vec_y (position st) < - 10"
    and "calculateNextState (position st) (velocity st) subDt config tileMap = (pos, vel, collision)"
    and "vec_x hole = real_of_int hx" and "vec_z hole = real_of_int hz"
    and "map_option tile_type (tileMap (hx, hz)) \<noteq> Some WATER"
    and "magnitude \<lparr>vec_x = vec_x pos - vec_x hole, vec_y = 0, vec_z = vec_z pos - vec_z hole\<rparr> < 0.3"
    and "magnitude vel < 5"
  shows "subStepLoop config tileMap hole subDt (Suc n) st
           = st\<lparr>position := hole, velocity := zeroVector, isMoving := False, inHole := True\<rparr>
       \<and> updateBall config tileMap hole dt'
            (st\<lparr>position := hole, velocity := zeroVector, isMoving := False, inHole := True\<rparr>)
           = st\<lparr>position := hole, velocity := zeroVector, isMoving := False, inHole := True\<rparr>"
proof -
  have "collision \<noteq> Some ''WATER''"
    using assms(4,5,6,3,7) by (rule no_water_event_near_hole)
  with assms(1,2,3) show ?thesis
    using assms(7,8) by (rule capture_unless_water)
qed

theorem hole_capture_witness:
  "calculateNextState \<lparr>vec_x = 7 / 40, vec_y = 3 / 20, vec_z = 0\<rparr>
       \<lparr>vec_x = 200 / 99, vec_y = 175 / 396, vec_z = 0\<rparr> (1 / 80) PHYSICS_CONFIG
       (buildTileMap [\<lparr>tile_x = 0, tile_z = 0, height = 0, tile_type = GREEN\<rparr>])
     = (\<lparr>vec_x = 1 / 5, vec_y = 3 / 20, vec_z = 0\<rparr>, \<lparr>vec_x = 2, vec_y = 0, vec_z = 0\<rparr>, None)
   \<and> magnitude \<lparr>vec_x = 1 / 5 - 0, vec_y = 0, vec_z = 0 - 0\<rparr> < 0.3
   \<and> magnitude \<lparr>vec_x = 2, vec_y = 0, vec_z = 0\<rparr> < 5
   \<and> subStepLoop PHYSICS_CONFIG
        (buildTileMap [\<lparr>tile_x = 0, tile_z = 0, height = 0, tile_type = GREEN\<rparr>])
        \<lparr>vec_x = 0, vec_y = 0, vec_z = 0\<rparr> (1 / 80) (Suc 7)
        \<lparr>position = \<lparr>vec_x = 7 / 40, vec_y = 3 / 20, vec_z = 0\<rparr>,
          velocity = \<lparr>vec_x = 200 / 99, vec_y = 175 / 396, vec_z = 0\<rparr>,
          isMoving = True, inHole = False,
          lastStablePosition = \<lparr>vec_x = - 3, vec_y = 3 / 20, vec_z = 0\<rparr>\<rparr>
     = \<lparr>position = \<lparr>vec_x = 0, vec_y = 0, vec_z = 0\<rparr>, velocity = zeroVector,
          isMoving = False, inHole = True,
          lastStablePosition = \<lparr>vec_x = - 3, vec_y = 3 / 20, vec_z = 0\<rparr>\<rparr>"
proof -
  let ?T = "\<lparr>tile_x = 0, tile_z = 0, height = 0, tile_type = GREEN\<rparr>"
  let ?tm = "buildTileMap [?T]"
  let ?p = "\<lparr>vec_x = 7 / 40, vec_y = 3 / 20, vec_z = 0\<rparr>"
  let ?v = "\<lparr>vec_x = 200 / 99, vec_y = 175 / 396, vec_z = 0\<rparr>"
  let ?np = "\<lparr>vec_x = 1 / 5, vec_y = 3 / 20, vec_z = 0\<rparr>"
  let ?nv = "\<lparr>vec_x = 2, vec_y = 0, vec_z = 0\<rparr>"
  let ?hole = "\<lparr>vec_x = 0, vec_y = 0, vec_z = 0\<rparr>"
  let ?st = "\<lparr>position = ?p, velocity = ?v, isMoving = True, inHole = False,
          lastStablePosition = \<lparr>vec_x = - 3, vec_y = 3 / 20, vec_z = 0\<rparr>\<rparr>"
  have int: "integrate ?p ?v (1 / 80) PHYSICS_CONFIG = (?np, ?nv)"
    by (simp add: integrate_def Let_def addVectors_def scaleVector_def PHYSICS_CONFIG_def)
  have col: "collisions ?tm pv = pv" for pv
    by (rule collisions_no_obstacle) (auto simp: buildTileMap_single split: if_splits)
  have gr: "groundResponse ?tm (1 / 80) PHYSICS_CONFIG (?np, ?nv) = (?np, ?nv, None)"
    by (simp add: groundResponse_def floorHeightAt_def tileKey_def Math_round_def
        buildTileMap_single Let_def)
  have step: "calculateNextState ?p ?v (1 / 80) PHYSICS_CONFIG ?tm = (?np, ?nv, None)"
    unfolding calculateNextState_def int col gr ..
  have h1: "isMoving ?st" and h2: "\<not> vec_y (position ?st) < - 10"
    by simp_all
  have h3: "calculateNextState (position ?st) (velocity ?st) (1 / 80) PHYSICS_CONFIG ?tm = (?np, ?nv, None)"
    using step by simp
  have h4: "vec_x ?hole = real_of_int 0" and h4': "vec_z ?hole = real_of_int 0"
    by simp_all
  have h4'': "map_option tile_type (?tm (0, 0)) \<noteq> Some WATER"
    by (simp add: buildTileMap_single)
  have h5: "magnitude \<lparr>vec_x = vec_x ?np - vec_x ?hole, vec_y = 0, vec_z = vec_z ?np - vec_z ?hole\<rparr> < 0.3"
    by (rule magnitude_lessI) simp_all
  have h6: "magnitude ?nv < 5"
    by (rule magnitude_lessI) simp_all
  from hole_capture [OF h1 h2 h3 h4 h4' h4'' h5 h6, of 7] step h5 h6 show ?thesis
    by (simp del: subStepLoop.simps)
qed

section \<open>The phase machine when the ball has stopped\<close>

text \<open>
  C2.  In phase EXECUTING with the ball stopped and not in the hole, the effect moves to
  OUT_OF_BOUNDS exactly when there is no tile under the ball, or that tile is WATER, or the
  ball is below \<open>- 5\<close>; otherwise to GAME_OVER exactly when no life is left; otherwise to
  AIMING.  Going out of bounds starts one reset timer, and when it fires the ball is back
  at \<open>lastStablePosition\<close> and the phase is AIMING.
\<close>

theorem stopped_branch:
  assumes "gamePhase g = EXECUTING"
    and "\<not> isMoving (ballState g)"
    and "\<not> inHole (ballState g)"
  shows "(gamePhase (phaseTransition g) = OUT_OF_BOUNDS \<longleftrightarrow>
            tileMapOf g (tileKey (position (ballState g))) = None
            \<or> map_option tile_type (tileMapOf g (tileKey (position (ballState g)))) = Some WATER
            \<or> vec_y (position (ballState g)) < - 5)
       \<and> (gamePhase (phaseTransition g) = GAME_OVER \<longleftrightarrow> \<not> outOfBounds g \<and> lives g \<le> 0)
       \<and> (gamePhase (phaseTransition g) = AIMING \<longleftrightarrow> \<not> outOfBounds g \<and> \<not> lives g \<le> 0)
       \<and> (outOfBounds g \<longrightarrow>
            pendingResets (phaseTransition g) = pendingResets g + 1
            \<and> position (ballState (timerFires (phaseTransition g))) = lastStablePosition (ballState g)
            \<and> gamePhase (timerFires (phaseTransition g)) = AIMING)"
proof -
  have oob: "outOfBounds g \<longleftrightarrow>
            tileMapOf g (tileKey (position (ballState g))) = None
            \<or> map_option tile_type (tileMapOf g (tileKey (position (ballState g)))) = Some WATER
            \<or> vec_y (position (ballState g)) < - 5"
    by (auto simp: outOfBounds_def split: option.splits)
  have ph: "gamePhase (phaseTransition g)
      = (if outOfBounds g then OUT_OF_BOUNDS else if lives g \<le> 0 then GAME_OVER else AIMING)"
    using assms by (simp add: phaseTransition_def)
  have tm: "outOfBounds g \<Longrightarrow>
            pendingResets (phaseTransition g) = pendingResets g + 1
            \<and> position (ballState (timerFires (phaseTransition g))) = lastStablePosition (ballState g)
            \<and> gamePhase (timerFires (phaseTransition g)) = AIMING"
    using assms by (simp add: phaseTransition_def timerFires_def resetBall_def)
  show ?thesis
    using oob ph tm by auto
qed

theorem stopped_branch_witness:
  "gamePhase \<lparr>level = \<lparr>tiles = [\<lparr>tile_x = 0, tile_z = 0, height = 0, tile_type = GREEN\<rparr>,
                                  \<lparr>tile_x = 1, tile_z = 0, height = - (1 / 2), tile_type = WATER\<rparr>],
                         startPosition = \<lparr>vec_x = 0, vec_y = 3 / 20, vec_z = 0\<rparr>,
                         holePosition = \<lparr>vec_x = 9, vec_y = 0, vec_z = 0\<rparr>, par = 4\<rparr>,
               ballState = \<lparr>position = \<lparr>vec_x = 1, vec_y = - (1 / 2), vec_z = 0\<rparr>,
                             velocity = zeroVector, isMoving = False, inHole = False,
                             lastStablePosition = \<lparr>vec_x = 0, vec_y = 3 / 20, vec_z = 0\<rparr>\<rparr>,
               gamePhase = EXECUTING, lives = 4, levelScore = 0, isPaused = False,
               lastTime = Some 16, pendingResets = 0\<rparr> = EXECUTING
   \<and> gamePhase (phaseTransition
         \<lparr>level = \<lparr>tiles = [\<lparr>tile_x = 0, tile_z = 0, height = 0, tile_type = GREEN\<rparr>,
                                  \<lparr>tile_x = 1, tile_z = 0, height = - (1 / 2), tile_type = WATER\<rparr>],
                         startPosition = \<lparr>vec_x = 0, vec_y = 3 / 20, vec_z = 0\<rparr>,
                         holePosition = \<lparr>vec_x = 9, vec_y = 0, vec_z = 0\<rparr>, par = 4\<rparr>,
               ballState = \<lparr>position = \<lparr>vec_x = 1, vec_y = - (1 / 2), vec_z = 0\<rparr>,
                             velocity = zeroVector, isMoving = False, inHole = False,
                             lastStablePosition = \<lparr>vec_x = 0, vec_y = 3 / 20, vec_z = 0\<rparr>\<rparr>,
               gamePhase = EXECUTING, lives = 4, levelScore = 0, isPaused = False,
               lastTime = Some 16, pendingResets = 0\<rparr>) = OUT_OF_BOUNDS
   \<and> position (ballState (timerFires (phaseTransition
         \<lparr>level = \<lparr>tiles = [\<lparr>tile_x = 0, tile_z = 0, height = 0, tile_type = GREEN\<rparr>,
                                  \<lparr>tile_x = 1, tile_z = 0, height = - (1 / 2), tile_type = WATER\<rparr>],
                         startPosition = \<lparr>vec_x = 0, vec_y = 3 / 20, vec_z = 0\<rparr>,
                         holePosition = \<lparr>vec_x = 9, vec_y = 0, vec_z = 0\<rparr>, par = 4\<rparr>,
               ballState = \<lparr>position = \<lparr>vec_x = 1, vec_y = - (1 / 2), vec_z = 0\<rparr>,
                             velocity = zeroVector, isMoving = False, inHole = False,
                             lastStablePosition = \<lparr>vec_x = 0, vec_y = 3 / 20, vec_z = 0\<rparr>\<rparr>,
               gamePhase = EXECUTING, lives = 4, levelScore = 0, isPaused = False,
               lastTime = Some 16, pendingResets = 0\<rparr>)))
       = \<lparr>vec_x = 0, vec_y = 3 / 20, vec_z = 0\<rparr>"
proof -
  let ?g = "\<lparr>level = \<lparr>tiles = [\<lparr>tile_x = 0, tile_z = 0, height = 0, tile_type = GREEN\<rparr>,
                                  \<lparr>tile_x = 1, tile_z = 0, height = - (1 / 2), tile_type = WATER\<rparr>],
                         startPosition = \<lparr>vec_x = 0, vec_y = 3 / 20, vec_z = 0\<rparr>,
                         holePosition = \<lparr>vec_x = 9, vec_y = 0, vec_z = 0\<rparr>, par = 4\<rparr>,
               ballState = \<lparr>position = \<lparr>vec_x = 1, vec_y = - (1 / 2), vec_z = 0\<rparr>,
                             velocity = zeroVector, isMoving = False, inHole = False,
                             lastStablePosition = \<lparr>vec_x = 0, vec_y = 3 / 20, vec_z = 0\<rparr>\<rparr>,
               gamePhase = EXECUTING, lives = 4, levelScore = 0, isPaused = False,
               lastTime = Some (16::real), pendingResets = 0\<rparr>"
  have h1: "gamePhase ?g = EXECUTING" and h2: "\<not> isMoving (ballState ?g)"
    and h3: "\<not> inHole (ballState ?g)"
    by simp_all
  have w: "map_option tile_type (tileMapOf ?g (tileKey (position (ballState ?g)))) = Some WATER"
    by (simp add: tileMapOf_def buildTileMap_def tileKey_def Math_round_def)
  then have o: "outOfBounds ?g"
    by (auto simp: outOfBounds_def split: option.splits)
  from stopped_branch [OF h1 h2 h3] w o show ?thesis
    by simp
qed

section \<open>Friction and near-ground drag\<close>

lemma horizontalSpeed_eq:
  "horizontalSpeed v = sqrt (vec_x v * vec_x v + vec_z v * vec_z v)"
  by (simp add: horizontalSpeed_def magnitude_def)

lemma horizontalSpeed_nonneg:
  "0 \<le> horizontalSpeed v"
  by (simp add: horizontalSpeed_eq)

lemma horizontalSpeed_scaled:
  "horizontalSpeed (v\<lparr>vec_x := vec_x v * f, vec_z := vec_z v * f\<rparr>) = \<bar>f\<bar> * horizontalSpeed v"
proof -
  have "vec_x v * f * (vec_x v * f) + vec_z v * f * (vec_z v * f)
      = (f * f) * (vec_x v * vec_x v + vec_z v * vec_z v)"
    by (simp add: algebra_simps)
  then show ?thesis
    by (simp add: horizontalSpeed_eq real_sqrt_mult)
qed

lemma horizontalSpeed_axis:
  "vec_z v = 0 \<Longrightarrow> horizontalSpeed v = \<bar>vec_x v\<bar>"
  by (simp add: horizontalSpeed_eq)

lemma horizontalSpeed_verticalBounce:
  "horizontalSpeed (verticalBounce config v) = horizontalSpeed v"
  by (simp add: verticalBounce_def horizontalSpeed_eq)

lemma scaled_le:
  fixes s :: real
  assumes "\<bar>f\<bar> \<le> 1" and "0 \<le> s"
  shows "\<bar>f\<bar> * s \<le> s"
  using assms mult_right_mono [of "\<bar>f\<bar>" 1 s] by simp

lemma groundFriction_no_gain:
  assumes "0 \<le> dt" and "dt \<le> 2"
    and "0 \<le> gravity config"
    and "0 \<le> getFrictionForTile tileType config"
  shows "horizontalSpeed (groundFriction tileType dt config v) \<le> horizontalSpeed v"
proof (cases "vec_y v = 0")
  case False
  have "\<bar>1 - dt\<bar> \<le> 1"
    using assms(1,2) by simp
  then have "\<bar>1 - dt\<bar> * horizontalSpeed v \<le> horizontalSpeed v"
    by (rule scaled_le) (rule horizontalSpeed_nonneg)
  with False show ?thesis
    by (simp add: groundFriction_def horizontalSpeed_scaled)
next
  case True
  let ?s = "horizontalSpeed v"
  let ?m = "getFrictionForTile tileType config * gravity config * dt"
  have m: "0 \<le> ?m"
    using assms(1,3,4) by simp
  show ?thesis
  proof (cases "?s > 0")
    case False
    with True show ?thesis
      by (simp add: groundFriction_def Let_def)
  next
    case pos: True
    show ?thesis
    proof (cases "?s \<le> ?m")
      case True
      have "horizontalSpeed (v\<lparr>vec_x := 0, vec_z := 0\<rparr>) = 0"
        by (simp add: horizontalSpeed_eq)
      with True pos \<open>vec_y v = 0\<close> show ?thesis
        by (simp add: groundFriction_def Let_def)
    next
      case False
      let ?f = "(?s - ?m) / ?s"
      have "0 \<le> ?f" and "?f \<le> 1"
        using False pos m by (simp_all add: field_simps)
      then have "\<bar>?f\<bar> \<le> 1"
        by simp
      then have le: "\<bar>?f\<bar> * ?s \<le> ?s"
        by (rule scaled_le) (rule horizontalSpeed_nonneg)
      have gf: "groundFriction tileType dt config v
          = v\<lparr>vec_x := vec_x v * ?f, vec_z := vec_z v * ?f\<rparr>"
        using False pos \<open>vec_y v = 0\<close> by (simp add: groundFriction_def Let_def)
      show ?thesis
        unfolding gf horizontalSpeed_scaled by (rule le)
    qed
  qed
qed

lemma getFrictionForTile_nonneg:
  "0 \<le> getFrictionForTile tileType PHYSICS_CONFIG"
  by (cases "(tileType, PHYSICS_CONFIG)" rule: getFrictionForTile.cases)
    (simp_all add: PHYSICS_CONFIG_def)

text \<open>
  The time steps of the program: the shot loop passes \<open>min (delta / 1000) 0.1 / 8\<close> and the
  predictor passes 0.05, always with \<open>PHYSICS_CONFIG\<close>.
\<close>

lemma groundFriction_program_inputs:
  assumes "0 \<le> dt" and "dt \<le> 1 / 10"
  shows "horizontalSpeed (groundFriction tileType dt PHYSICS_CONFIG v) \<le> horizontalSpeed v"
proof (rule groundFriction_no_gain)
  show "0 \<le> dt" by fact
  show "dt \<le> 2" using assms(2) by simp
  show "0 \<le> gravity PHYSICS_CONFIG" by (simp add: PHYSICS_CONFIG_def)
  show "0 \<le> getFrictionForTile tileType PHYSICS_CONFIG" by (rule getFrictionForTile_nonneg)
qed

text \<open>
  C6.  For a time step \<open>0 \<le> dt \<le> 2\<close>, a gravity that is not negative and a friction
  coefficient of the tile that is not negative (the program only passes time steps up to
  0.1 and the positive constants of \<open>PHYSICS_CONFIG\<close>): when the ground branch applies
  (position after integration and collision at or below the floor, tile not WATER), the
  horizontal speed of the returned velocity is at most the horizontal speed before the
  ground response.
\<close>

theorem friction_never_adds_energy:
  assumes "collisions tileMap (integrate pos vel dt config) = (newPos, newVel)"
    and "vec_y newPos \<le> floorHeightAt tileMap newPos"
    and "map_option tile_type (tileMap (tileKey newPos)) \<noteq> Some WATER"
    and "0 \<le> dt" and "dt \<le> 2"
    and "0 \<le> gravity config"
    and "0 \<le> getFrictionForTile (map_option tile_type (tileMap (tileKey newPos))) config"
  shows "horizontalSpeed (fst (snd (calculateNextState pos vel dt config tileMap)))
           \<le> horizontalSpeed newVel"
proof -
  let ?tt = "map_option tile_type (tileMap (tileKey newPos))"
  have "fst (snd (calculateNextState pos vel dt config tileMap))
      = groundFriction ?tt dt config (verticalBounce config newVel)"
    using assms(1,2,3) by (auto simp: calculateNextState_def groundResponse_def Let_def)
  moreover have "horizontalSpeed (groundFriction ?tt dt config (verticalBounce config newVel))
      \<le> horizontalSpeed (verticalBounce config newVel)"
    using assms(4-7) by (rule groundFriction_no_gain)
  ultimately show ?thesis
    by (simp add: horizontalSpeed_verticalBounce)
qed

theorem friction_never_adds_energy_witness:
  "collisions (buildTileMap [\<lparr>tile_x = 0, tile_z = 0, height = 0, tile_type = FAIRWAY\<rparr>])
       (integrate \<lparr>vec_x = 0, vec_y = 0, vec_z = 0\<rparr> \<lparr>vec_x = 1, vec_y = 0, vec_z = 0\<rparr> (1 / 80)
          PHYSICS_CONFIG)
     = (\<lparr>vec_x = 99 / 8000, vec_y = - (7 / 1280), vec_z = 0\<rparr>,
        \<lparr>vec_x = 99 / 100, vec_y = - (7 / 16), vec_z = 0\<rparr>)
   \<and> vec_y \<lparr>vec_x = 99 / 8000, vec_y = - (7 / 1280), vec_z = 0\<rparr>
       \<le> floorHeightAt (buildTileMap [\<lparr>tile_x = 0, tile_z = 0, height = 0, tile_type = FAIRWAY\<rparr>])
            \<lparr>vec_x = 99 / 8000, vec_y = - (7 / 1280), vec_z = 0\<rparr>
   \<and> map_option tile_type
         (buildTileMap [\<lparr>tile_x = 0, tile_z = 0, height = 0, tile_type = FAIRWAY\<rparr>]
            (tileKey \<lparr>vec_x = 99 / 8000, vec_y = - (7 / 1280), vec_z = 0\<rparr>)) = Some FAIRWAY
   \<and> horizontalSpeed (fst (snd (calculateNextState \<lparr>vec_x = 0, vec_y = 0, vec_z = 0\<rparr>
         \<lparr>vec_x = 1, vec_y = 0, vec_z = 0\<rparr> (1 / 80) PHYSICS_CONFIG
         (buildTileMap [\<lparr>tile_x = 0, tile_z = 0, height = 0, tile_type = FAIRWAY\<rparr>]))))
       \<le> horizontalSpeed \<lparr>vec_x = 99 / 100, vec_y = - (7 / 16), vec_z = 0\<rparr>"
proof -
  let ?T = "\<lparr>tile_x = 0, tile_z = 0, height = 0, tile_type = FAIRWAY\<rparr>"
  let ?tm = "buildTileMap [?T]"
  let ?p = "\<lparr>vec_x = 0, vec_y = 0, vec_z = 0\<rparr>"
  let ?v = "\<lparr>vec_x = 1, vec_y = 0, vec_z = 0\<rparr>"
  let ?np = "\<lparr>vec_x = 99 / 8000, vec_y = - (7 / 1280), vec_z = 0\<rparr>"
  let ?nv = "\<lparr>vec_x = 99 / 100, vec_y = - (7 / 16), vec_z = 0\<rparr>"
  have int: "integrate ?p ?v (1 / 80) PHYSICS_CONFIG = (?np, ?nv)"
    by (simp add: integrate_def Let_def addVectors_def scaleVector_def PHYSICS_CONFIG_def)
  have col: "collisions ?tm pv = pv" for pv
    by (rule collisions_no_obstacle) (auto simp: buildTileMap_single split: if_splits)
  have h1: "collisions ?tm (integrate ?p ?v (1 / 80) PHYSICS_CONFIG) = (?np, ?nv)"
    by (simp add: int col)
  have key: "?tm (tileKey ?np) = Some ?T"
    by (simp add: buildTileMap_single tileKey_def Math_round_def)
  have h2: "vec_y ?np \<le> floorHeightAt ?tm ?np"
    by (simp add: floorHeightAt_def key)
  have tt: "map_option tile_type (?tm (tileKey ?np)) = Some FAIRWAY"
    by (simp add: key)
  have h3: "map_option tile_type (?tm (tileKey ?np)) \<noteq> Some WATER"
    by (simp add: key)
  have h4: "(0::real) \<le> 1 / 80" and h5: "(1::real) / 80 \<le> 2"
    by simp_all
  have h6: "0 \<le> gravity PHYSICS_CONFIG"
    by (simp add: PHYSICS_CONFIG_def)
  have h7: "0 \<le> getFrictionForTile (map_option tile_type (?tm (tileKey ?np))) PHYSICS_CONFIG"
    by (simp add: key PHYSICS_CONFIG_def)
  from friction_never_adds_energy [OF h1 h2 h3 h4 h5 h6 h7] h1 h2 tt show ?thesis
    by blast
qed

section \<open>Bounce off a tree or an obstacle\<close>

lemma unit_quotients:
  fixes a b d :: real
  assumes "0 < d" and "d * d = a * a + b * b"
  shows "(a / d) * (a / d) + (b / d) * (b / d) = 1"
proof -
  have "(a / d) * (a / d) + (b / d) * (b / d) = (a * a + b * b) / (d * d)"
    by (simp add: add_divide_distrib)
  also have "\<dots> = (d * d) / (d * d)"
    by (simp only: assms(2))
  also have "\<dots> = 1"
    using assms(1) by simp
  finally show ?thesis .
qed

lemma collisionNormal_unit:
  assumes "collisionNormal obs p = (nx, nz)"
  shows "nx * nx + nz * nz = 1"
proof -
  let ?dx = "vec_x p - real_of_int (tile_x obs)"
  let ?dz = "vec_z p - real_of_int (tile_z obs)"
  let ?d = "sqrt (?dx * ?dx + ?dz * ?dz)"
  show ?thesis
  proof (cases "?d > 0")
    case True
    then have n: "nx = ?dx / ?d" "nz = ?dz / ?d"
      using assms by (simp_all add: collisionNormal_def Let_def)
    have "?d * ?d = ?dx * ?dx + ?dz * ?dz"
      by simp
    with True show ?thesis
      unfolding n by (rule unit_quotients)
  next
    case False
    then have "nx = 1" "nz = 0"
      using assms by (simp_all add: collisionNormal_def Let_def)
    then show ?thesis by simp
  qed
qed

lemma collideObstacle_bounce:
  assumes "collisionFires obs p"
    and "collisionNormal obs p = (nx, nz)"
    and "vec_x v * nx + vec_z v * nz < 0"
  shows "snd (collideObstacle obs (p, v))
           = v\<lparr>vec_x := ((vec_x v - 2 * (vec_x v * nx + vec_z v * nz) * nx) * 0.7) * 0.9,
                vec_z := ((vec_z v - 2 * (vec_x v * nx + vec_z v * nz) * nz) * 0.7) * 0.9\<rparr>"
  using assms by (simp add: collideObstacle_def Let_def)

lemma collideObstacle_height:
  "vec_y (fst (collideObstacle obs (p, v))) = vec_y p"
  by (simp add: collideObstacle_def Let_def)

lemma reflect_component:
  fixes nx nz a b r e :: real
  assumes "nx * nx + nz * nz = 1"
  shows "((a - 2 * (a * nx + b * nz) * nx) * r) * e * nx
       + ((b - 2 * (a * nx + b * nz) * nz) * r) * e * nz
       = - (r * e) * (a * nx + b * nz)"
proof -
  have "((a - 2 * (a * nx + b * nz) * nx) * r) * e * nx
       + ((b - 2 * (a * nx + b * nz) * nz) * r) * e * nz
      = (r * e) * ((a * nx + b * nz) - 2 * (a * nx + b * nz) * (nx * nx + nz * nz))"
    by (simp add: algebra_simps)
  also have "\<dots> = - (r * e) * (a * nx + b * nz)"
    by (simp add: assms algebra_simps)
  finally show ?thesis .
qed

lemma reversed_and_smaller:
  fixes d :: real
  assumes "d < 0"
  shows "0 < - (0.7 * 0.9) * d \<and> \<bar>- (0.7 * 0.9) * d\<bar> < \<bar>d\<bar>"
  using assms by (simp add: abs_if)

lemma fold_unchanged:
  "(\<And>a. a \<in> set xs \<Longrightarrow> f a s = s) \<Longrightarrow> fold f xs s = s"
  by (induction xs) auto

lemma fold_single_change:
  assumes "distinct xs" and "a \<in> set xs"
    and "\<And>b. b \<in> set xs \<Longrightarrow> b \<noteq> a \<Longrightarrow> f b s = s \<and> f b (f a s) = f a s"
  shows "fold f xs s = f a s"
  using assms
proof (induction xs)
  case Nil
  then show ?case by simp
next
  case (Cons x xs)
  show ?case
  proof (cases "x = a")
    case True
    with Cons.prems(1) have "a \<notin> set xs" by simp
    then have "fold f xs (f a s) = f a s"
      using Cons.prems(3) by (intro fold_unchanged) auto
    with True show ?thesis by simp
  next
    case False
    with Cons.prems have "f x s = s" and "a \<in> set xs" and "distinct xs"
      by auto
    moreover have "fold f xs s = f a s"
      using Cons.prems \<open>a \<in> set xs\<close> \<open>distinct xs\<close> by (intro Cons.IH) auto
    ultimately show ?thesis by simp
  qed
qed

lemma distinct_scanOffsets:
  "distinct scanOffsets"
  by (simp add: scanOffsets_eq)

lemma collisions_single:
  assumes "ij \<in> set scanOffsets"
    and "tileMap (Math_round (vec_x p) + fst ij, Math_round (vec_z p) + snd ij) = Some obs"
    and "tile_type obs = TREE \<or> tile_type obs = OBSTACLE"
    and "\<forall>kl \<in> set scanOffsets. kl \<noteq> ij \<longrightarrow>
           collideAt tileMap (Math_round (vec_x p) + fst kl, Math_round (vec_z p) + snd kl) (p, v) = (p, v)
           \<and> collideAt tileMap (Math_round (vec_x p) + fst kl, Math_round (vec_z p) + snd kl)
               (collideObstacle obs (p, v)) = collideObstacle obs (p, v)"
  shows "collisions tileMap (p, v) = collideObstacle obs (p, v)"
proof -
  let ?f = "\<lambda>kl. collideAt tileMap (Math_round (vec_x p) + fst kl, Math_round (vec_z p) + snd kl)"
  let ?c = "collideObstacle obs (p, v)"
  have at: "?f ij (p, v) = ?c"
    using assms(2,3) by (auto simp: collideAt_def)
  have "fold ?f scanOffsets (p, v) = ?f ij (p, v)"
  proof (rule fold_single_change [OF distinct_scanOffsets assms(1)])
    fix kl assume "kl \<in> set scanOffsets" and "kl \<noteq> ij"
    with assms(4) at show "?f kl (p, v) = (p, v) \<and> ?f kl (?f ij (p, v)) = ?f ij (p, v)"
      by simp
  qed
  then show ?thesis
    by (simp add: collisions_def Let_def at)
qed

lemma collisionNormal_axis:
  assumes "vec_z p = real_of_int (tile_z obs)" and "real_of_int (tile_x obs) < vec_x p"
  shows "collisionNormal obs p = (1, 0)"
  using assms by (simp add: collisionNormal_def Let_def)

lemma collideObstacle_axis:
  assumes "vec_z p = real_of_int (tile_z obs)" and "real_of_int (tile_x obs) < vec_x p"
    and "collisionFires obs p" and "vec_x v < 0"
  shows "collideObstacle obs (p, v)
           = (p\<lparr>vec_x := vec_x p + (minDist obs - (vec_x p - real_of_int (tile_x obs)) + 0.01)\<rparr>,
              v\<lparr>vec_x := - vec_x v * 0.7 * 0.9, vec_z := vec_z v * 0.7 * 0.9\<rparr>)"
  using assms by (simp add: collideObstacle_def collisionNormal_axis Let_def)

lemma groundFriction_factor:
  assumes "0 \<le> dt" and "dt \<le> 1"
    and "0 \<le> gravity config"
    and "0 \<le> getFrictionForTile tileType config"
  shows "\<exists>f. 0 \<le> f \<and> f \<le> 1
           \<and> vec_x (groundFriction tileType dt config v) = f * vec_x v
           \<and> vec_z (groundFriction tileType dt config v) = f * vec_z v"
proof (cases "vec_y v = 0")
  case False
  then have "vec_x (groundFriction tileType dt config v) = (1 - dt) * vec_x v"
    and "vec_z (groundFriction tileType dt config v) = (1 - dt) * vec_z v"
    by (simp_all add: groundFriction_def)
  moreover have "0 \<le> 1 - dt" and "1 - dt \<le> 1"
    using assms(1,2) by simp_all
  ultimately show ?thesis by blast
next
  case True
  let ?s = "horizontalSpeed v"
  let ?m = "getFrictionForTile tileType config * gravity config * dt"
  have m: "0 \<le> ?m"
    using assms(1,3,4) by simp
  show ?thesis
  proof (cases "?s > 0")
    case False
    with True have "groundFriction tileType dt config v = v"
      by (simp add: groundFriction_def Let_def)
    then have "vec_x (groundFriction tileType dt config v) = 1 * vec_x v"
      and "vec_z (groundFriction tileType dt config v) = 1 * vec_z v"
      by simp_all
    then show ?thesis
      by (intro exI [of _ 1]) simp
  next
    case pos: True
    show ?thesis
    proof (cases "?s \<le> ?m")
      case True
      with pos \<open>vec_y v = 0\<close> have "vec_x (groundFriction tileType dt config v) = 0 * vec_x v"
        and "vec_z (groundFriction tileType dt config v) = 0 * vec_z v"
        by (simp_all add: groundFriction_def Let_def)
      then show ?thesis
        by (intro exI [of _ 0]) simp
    next
      case False
      let ?f = "(?s - ?m) / ?s"
      have f: "0 \<le> ?f" "?f \<le> 1"
        using False pos m by (simp_all add: field_simps)
      have gf: "groundFriction tileType dt config v
          = v\<lparr>vec_x := vec_x v * ?f, vec_z := vec_z v * ?f\<rparr>"
        using False pos \<open>vec_y v = 0\<close> by (simp add: groundFriction_def Let_def)
      have "vec_x (groundFriction tileType dt config v) = ?f * vec_x v"
        and "vec_z (groundFriction tileType dt config v) = ?f * vec_z v"
        unfolding gf by (simp_all add: mult.commute)
      with f show ?thesis by blast
    qed
  qed
qed

lemma verticalBounce_horizontal:
  "vec_x (verticalBounce config v) = vec_x v \<and> vec_z (verticalBounce config v) = vec_z v"
  by (simp add: verticalBounce_def)

lemma groundResponse_factor:
  assumes "0 \<le> dt" and "dt \<le> 1"
    and "0 \<le> gravity config"
    and "0 \<le> getFrictionForTile (map_option tile_type (tileMap (tileKey p))) config"
  shows "\<exists>f. 0 \<le> f \<and> f \<le> 1
           \<and> vec_x (fst (snd (groundResponse tileMap dt config (p, v)))) = f * vec_x v
           \<and> vec_z (fst (snd (groundResponse tileMap dt config (p, v)))) = f * vec_z v"
proof -
  let ?tt = "map_option tile_type (tileMap (tileKey p))"
  consider (air) "\<not> vec_y p \<le> floorHeightAt tileMap p"
    | (water) "vec_y p \<le> floorHeightAt tileMap p" "?tt = Some WATER"
    | (ground) "vec_y p \<le> floorHeightAt tileMap p" "?tt \<noteq> Some WATER"
    by blast
  then show ?thesis
  proof cases
    case air
    then have "fst (snd (groundResponse tileMap dt config (p, v))) = v"
      by (simp add: groundResponse_def Let_def)
    then show ?thesis
      by (intro exI [of _ 1]) simp
  next
    case water
    then have "fst (snd (groundResponse tileMap dt config (p, v))) = zeroVector"
      by (simp add: groundResponse_def Let_def)
    then show ?thesis
      by (intro exI [of _ 0]) (simp add: zeroVector_def)
  next
    case ground
    then have g: "fst (snd (groundResponse tileMap dt config (p, v)))
        = groundFriction ?tt dt config (verticalBounce config v)"
      by (auto simp: groundResponse_def Let_def)
    from groundFriction_factor [OF assms, of "verticalBounce config v"]
    show ?thesis
      unfolding g by (simp add: verticalBounce_horizontal)
  qed
qed

lemma scaled_component:
  fixes f d :: real
  assumes "0 \<le> f" and "f \<le> 1" and "d < 0"
  shows "0 \<le> f * (- (0.7 * 0.9) * d) \<and> \<bar>f * (- (0.7 * 0.9) * d)\<bar> < \<bar>d\<bar>
       \<and> (f * (- (0.7 * 0.9) * d) = 0 \<longrightarrow> f = 0)"
proof -
  define c where "c = - (0.7 * 0.9) * d"
  have c: "0 < c" "c < \<bar>d\<bar>"
    using reversed_and_smaller [OF assms(3)] unfolding c_def by linarith+
  have 1: "0 \<le> f * c"
    using assms(1) c(1) by simp
  have "f * c \<le> 1 * c"
    using assms(2) c(1) by (intro mult_right_mono) simp_all
  with c(2) have 2: "f * c < \<bar>d\<bar>"
    by simp
  have 3: "f * c = 0 \<longrightarrow> f = 0"
    using c(1) by simp
  from 1 2 3 have "0 \<le> f * c \<and> \<bar>f * c\<bar> < \<bar>d\<bar> \<and> (f * c = 0 \<longrightarrow> f = 0)"
    by simp
  then show ?thesis
    unfolding c_def .
qed

text \<open>
  C8 as amended.  In a physics step, with a time step \<open>0 \<le> dt \<le> 1\<close>, a gravity and a
  friction coefficient that are not negative, in which the collision with the tree or
  obstacle \<open>obs\<close> of one scanned cell fires with the velocity moving into it (negative dot
  product with the collision normal) and no other scanned cell changes position or
  velocity: the component of the returned velocity along the collision normal is not
  negative and is strictly smaller in magnitude than the incoming one; it is zero only
  when the ground or water response of the same step has brought the horizontal velocity
  to zero; and when the pushed-out ball is above the floor it is exactly \<open>- 0.7 \<cdot> 0.9\<close>
  times the incoming one.
\<close>

theorem obstacle_bounce:
  assumes "integrate pos vel dt config = (p, v)"
    and "ij \<in> set scanOffsets"
    and "tileMap (Math_round (vec_x p) + fst ij, Math_round (vec_z p) + snd ij) = Some obs"
    and "tile_type obs = TREE \<or> tile_type obs = OBSTACLE"
    and "\<forall>kl \<in> set scanOffsets. kl \<noteq> ij \<longrightarrow>
           collideAt tileMap (Math_round (vec_x p) + fst kl, Math_round (vec_z p) + snd kl) (p, v) = (p, v)
           \<and> collideAt tileMap (Math_round (vec_x p) + fst kl, Math_round (vec_z p) + snd kl)
               (collideObstacle obs (p, v)) = collideObstacle obs (p, v)"
    and "collisionFires obs p"
    and "collisionNormal obs p = (nx, nz)"
    and "vec_x v * nx + vec_z v * nz < 0"
    and "0 \<le> dt" and "dt \<le> 1"
    and "0 \<le> gravity config"
    and "0 \<le> getFrictionForTile
            (map_option tile_type (tileMap (tileKey (fst (collideObstacle obs (p, v)))))) config"
  shows "0 \<le> vec_x (fst (snd (calculateNextState pos vel dt config tileMap))) * nx
             + vec_z (fst (snd (calculateNextState pos vel dt config tileMap))) * nz
       \<and> \<bar>vec_x (fst (snd (calculateNextState pos vel dt config tileMap))) * nx
           + vec_z (fst (snd (calculateNextState pos vel dt config tileMap))) * nz\<bar>
           < \<bar>vec_x v * nx + vec_z v * nz\<bar>
       \<and> (vec_x (fst (snd (calculateNextState pos vel dt config tileMap))) * nx
           + vec_z (fst (snd (calculateNextState pos vel dt config tileMap))) * nz = 0
          \<longrightarrow> vec_x (fst (snd (calculateNextState pos vel dt config tileMap))) = 0
              \<and> vec_z (fst (snd (calculateNextState pos vel dt config tileMap))) = 0)
       \<and> (\<not> vec_y p \<le> floorHeightAt tileMap (fst (collideObstacle obs (p, v)))
          \<longrightarrow> vec_x (fst (snd (calculateNextState pos vel dt config tileMap))) * nx
              + vec_z (fst (snd (calculateNextState pos vel dt config tileMap))) * nz
              = - (0.7 * 0.9) * (vec_x v * nx + vec_z v * nz))"
proof -
  let ?c = "collideObstacle obs (p, v)"
  let ?d = "vec_x v * nx + vec_z v * nz"
  let ?r = "fst (snd (calculateNextState pos vel dt config tileMap))"
  let ?w = "v\<lparr>vec_x := ((vec_x v - 2 * ?d * nx) * 0.7) * 0.9,
              vec_z := ((vec_z v - 2 * ?d * nz) * 0.7) * 0.9\<rparr>"
  have col: "collisions tileMap (p, v) = ?c"
    using assms(2-5) by (rule collisions_single)
  have w: "snd ?c = ?w"
    using assms(6,7,8) by (rule collideObstacle_bounce)
  have unit: "nx * nx + nz * nz = 1"
    using assms(7) by (rule collisionNormal_unit)
  have wn: "vec_x ?w * nx + vec_z ?w * nz = - (0.7 * 0.9) * ?d"
    using reflect_component [OF unit, of "vec_x v" "vec_z v" "0.7" "0.9"]
    by (simp del: mult_minus_left)
  have "?c = (fst ?c, ?w)"
    using w by (metis prod.collapse)
  then have "groundResponse tileMap dt config ?c = groundResponse tileMap dt config (fst ?c, ?w)"
    by (rule arg_cong)
  then have ret: "?r = fst (snd (groundResponse tileMap dt config (fst ?c, ?w)))"
    unfolding calculateNextState_def assms(1) col by (rule arg_cong)
  obtain f where f: "0 \<le> f" "f \<le> 1" "vec_x ?r = f * vec_x ?w" "vec_z ?r = f * vec_z ?w"
    using groundResponse_factor [where p = "fst ?c" and v = ?w and tileMap = tileMap
        and dt = dt and config = config, OF assms(9-12)]
    unfolding ret by blast
  have comp: "vec_x ?r * nx + vec_z ?r * nz = f * (- (0.7 * 0.9) * ?d)"
    unfolding f(3,4) wn [symmetric] by (simp only: distrib_left mult.assoc)
  note sc = scaled_component [OF f(1,2) assms(8)]
  have zero: "vec_x ?r = 0 \<and> vec_z ?r = 0" if "vec_x ?r * nx + vec_z ?r * nz = 0"
  proof -
    from that comp sc have "f = 0" by simp
    with f(3,4) show ?thesis by simp
  qed
  have exact: "vec_x ?r * nx + vec_z ?r * nz = - (0.7 * 0.9) * ?d"
    if "\<not> vec_y p \<le> floorHeightAt tileMap (fst ?c)"
  proof -
    from that have "\<not> vec_y (fst ?c) \<le> floorHeightAt tileMap (fst ?c)"
      by (simp add: collideObstacle_height)
    then have "groundResponse tileMap dt config (fst ?c, ?w) = (fst ?c, ?w, None)"
      by (simp add: groundResponse_def Let_def)
    then have "?r = ?w"
      unfolding ret by simp
    then show ?thesis
      using wn by simp
  qed
  show ?thesis
    using sc zero exact unfolding comp [symmetric] by blast
qed

theorem obstacle_bounce_witness:
  "integrate \<lparr>vec_x = 5 / 16, vec_y = 1, vec_z = 0\<rparr> \<lparr>vec_x = - (100 / 99), vec_y = 0, vec_z = 0\<rparr>
       (1 / 80) PHYSICS_CONFIG
     = (\<lparr>vec_x = 3 / 10, vec_y = 1273 / 1280, vec_z = 0\<rparr>, \<lparr>vec_x = - 1, vec_y = - (7 / 16), vec_z = 0\<rparr>)
   \<and> collisionFires \<lparr>tile_x = 0, tile_z = 0, height = 1 / 2, tile_type = OBSTACLE\<rparr>
         \<lparr>vec_x = 3 / 10, vec_y = 1273 / 1280, vec_z = 0\<rparr>
   \<and> collisionNormal \<lparr>tile_x = 0, tile_z = 0, height = 1 / 2, tile_type = OBSTACLE\<rparr>
         \<lparr>vec_x = 3 / 10, vec_y = 1273 / 1280, vec_z = 0\<rparr> = (1, 0)
   \<and> vec_x (fst (snd (calculateNextState \<lparr>vec_x = 5 / 16, vec_y = 1, vec_z = 0\<rparr>
         \<lparr>vec_x = - (100 / 99), vec_y = 0, vec_z = 0\<rparr> (1 / 80) PHYSICS_CONFIG
         (buildTileMap [\<lparr>tile_x = 0, tile_z = 0, height = 1 / 2, tile_type = OBSTACLE\<rparr>])))) = 63 / 100"
proof -
  let ?T = "\<lparr>tile_x = 0, tile_z = 0, height = 1 / 2, tile_type = OBSTACLE\<rparr>"
  let ?tm = "buildTileMap [?T]"
  let ?pos = "\<lparr>vec_x = 5 / 16, vec_y = 1, vec_z = 0\<rparr>"
  let ?vel = "\<lparr>vec_x = - (100 / 99), vec_y = 0, vec_z = 0\<rparr>"
  let ?p = "\<lparr>vec_x = 3 / 10, vec_y = 1273 / 1280, vec_z = 0\<rparr>"
  let ?v = "\<lparr>vec_x = - 1, vec_y = - (7 / 16), vec_z = 0\<rparr>"
  have h1: "integrate ?pos ?vel (1 / 80) PHYSICS_CONFIG = (?p, ?v)"
    by (simp add: integrate_def Let_def addVectors_def scaleVector_def PHYSICS_CONFIG_def)
  have r: "Math_round (3 / 10) = 0" "Math_round 0 = 0"
    by (simp_all add: Math_round_def)
  have h2: "(0, 0) \<in> set scanOffsets"
    by (simp add: scanOffsets_eq)
  have h3: "?tm (Math_round (vec_x ?p) + fst (0, 0), Math_round (vec_z ?p) + snd (0, 0)) = Some ?T"
    by (simp add: r buildTileMap_single)
  have h4: "tile_type ?T = TREE \<or> tile_type ?T = OBSTACLE"
    by simp
  have h5: "\<forall>kl \<in> set scanOffsets. kl \<noteq> (0, 0) \<longrightarrow>
           collideAt ?tm (Math_round (vec_x ?p) + fst kl, Math_round (vec_z ?p) + snd kl) (?p, ?v) = (?p, ?v)
           \<and> collideAt ?tm (Math_round (vec_x ?p) + fst kl, Math_round (vec_z ?p) + snd kl)
               (collideObstacle ?T (?p, ?v)) = collideObstacle ?T (?p, ?v)"
    by (auto simp: r collideAt_def buildTileMap_single)
  have h6: "collisionFires ?T ?p"
    by (simp add: collisionFires_def minDist_def colliderRadius_def ballRadius_def Let_def)
  have h7: "collisionNormal ?T ?p = (1, 0)"
    by (rule collisionNormal_axis) simp_all
  have h8: "vec_x ?v * 1 + vec_z ?v * 0 < 0"
    by simp
  have c: "collideObstacle ?T (?p, ?v)
      = (?p\<lparr>vec_x := vec_x ?p + (minDist ?T - (vec_x ?p - real_of_int (tile_x ?T)) + 0.01)\<rparr>,
         ?v\<lparr>vec_x := - vec_x ?v * 0.7 * 0.9, vec_z := vec_z ?v * 0.7 * 0.9\<rparr>)"
    by (rule collideObstacle_axis [OF _ _ h6]) simp_all
  have h9: "\<not> vec_y ?p \<le> floorHeightAt ?tm (fst (collideObstacle ?T (?p, ?v)))"
    unfolding c
    by (simp add: floorHeightAt_def tileKey_def Math_round_def buildTileMap_single minDist_def
        colliderRadius_def ballRadius_def)
  have h10: "(0::real) \<le> 1 / 80" and h11: "(1::real) / 80 \<le> 1"
    by simp_all
  have h12: "0 \<le> gravity PHYSICS_CONFIG"
    by (simp add: PHYSICS_CONFIG_def)
  have h13: "0 \<le> getFrictionForTile
      (map_option tile_type (?tm (tileKey (fst (collideObstacle ?T (?p, ?v)))))) PHYSICS_CONFIG"
    unfolding c
    by (simp add: tileKey_def Math_round_def buildTileMap_single minDist_def colliderRadius_def
        ballRadius_def PHYSICS_CONFIG_def)
  from obstacle_bounce [OF h1 h2 h3 h4 h5 h6 h7 h8 h10 h11 h12 h13] h9
  have "vec_x (fst (snd (calculateNextState ?pos ?vel (1 / 80) PHYSICS_CONFIG ?tm))) * 1
      + vec_z (fst (snd (calculateNextState ?pos ?vel (1 / 80) PHYSICS_CONFIG ?tm))) * 0
      = - (0.7 * 0.9) * (vec_x ?v * 1 + vec_z ?v * 0)"
    by blast
  with h1 h6 h7 show ?thesis
    by simp
qed

text \<open>
  The claim about the returned velocity fails when the ground response of the same step
  follows the bounce: a ball that rolls into a rock at speed 0.198 bounces (horizontal
  velocity 0.12474 away from the rock) and is then stopped by the fairway friction of that
  step, so the returned velocity is zero and its component along the normal is not
  reversed.
\<close>

theorem obstacle_bounce_counterexample:
  "integrate \<lparr>vec_x = 12099 / 40000, vec_y = 1 / 200, vec_z = 0\<rparr> \<lparr>vec_x = - (1 / 5), vec_y = 0, vec_z = 0\<rparr>
       (1 / 80) PHYSICS_CONFIG
     = (\<lparr>vec_x = 3 / 10, vec_y = - (3 / 6400), vec_z = 0\<rparr>, \<lparr>vec_x = - (99 / 500), vec_y = - (7 / 16), vec_z = 0\<rparr>)
   \<and> collisionFires \<lparr>tile_x = 0, tile_z = 0, height = 1 / 2, tile_type = OBSTACLE\<rparr>
         \<lparr>vec_x = 3 / 10, vec_y = - (3 / 6400), vec_z = 0\<rparr>
   \<and> collisionNormal \<lparr>tile_x = 0, tile_z = 0, height = 1 / 2, tile_type = OBSTACLE\<rparr>
         \<lparr>vec_x = 3 / 10, vec_y = - (3 / 6400), vec_z = 0\<rparr> = (1, 0)
   \<and> - (99 / 500) * (1::real) + 0 * 0 < 0
   \<and> collisions (buildTileMap [\<lparr>tile_x = 0, tile_z = 0, height = 1 / 2, tile_type = OBSTACLE\<rparr>,
                                 \<lparr>tile_x = 1, tile_z = 0, height = 0, tile_type = FAIRWAY\<rparr>])
         (\<lparr>vec_x = 3 / 10, vec_y = - (3 / 6400), vec_z = 0\<rparr>, \<lparr>vec_x = - (99 / 500), vec_y = - (7 / 16), vec_z = 0\<rparr>)
       = (\<lparr>vec_x = 61 / 100, vec_y = - (3 / 6400), vec_z = 0\<rparr>,
          \<lparr>vec_x = 6237 / 50000, vec_y = - (7 / 16), vec_z = 0\<rparr>)
   \<and> fst (snd (calculateNextState \<lparr>vec_x = 12099 / 40000, vec_y = 1 / 200, vec_z = 0\<rparr>
         \<lparr>vec_x = - (1 / 5), vec_y = 0, vec_z = 0\<rparr> (1 / 80) PHYSICS_CONFIG
         (buildTileMap [\<lparr>tile_x = 0, tile_z = 0, height = 1 / 2, tile_type = OBSTACLE\<rparr>,
                        \<lparr>tile_x = 1, tile_z = 0, height = 0, tile_type = FAIRWAY\<rparr>])))
       = \<lparr>vec_x = 0, vec_y = 0, vec_z = 0\<rparr>"
proof -
  let ?T = "\<lparr>tile_x = 0, tile_z = 0, height = 1 / 2, tile_type = OBSTACLE\<rparr>"
  let ?F = "\<lparr>tile_x = 1, tile_z = 0, height = 0, tile_type = FAIRWAY\<rparr>"
  let ?tm = "buildTileMap [?T, ?F]"
  let ?pos = "\<lparr>vec_x = 12099 / 40000, vec_y = 1 / 200, vec_z = 0\<rparr>"
  let ?vel = "\<lparr>vec_x = - (1 / 5), vec_y = 0, vec_z = 0\<rparr>"
  let ?p = "\<lparr>vec_x = 3 / 10, vec_y = - (3 / 6400), vec_z = 0\<rparr>"
  let ?v = "\<lparr>vec_x = - (99 / 500), vec_y = - (7 / 16), vec_z = 0\<rparr>"
  let ?p' = "\<lparr>vec_x = 61 / 100, vec_y = - (3 / 6400), vec_z = 0\<rparr>"
  let ?v' = "\<lparr>vec_x = 6237 / 50000, vec_y = - (7 / 16), vec_z = 0\<rparr>"
  have tm: "?tm = [(0, 0) \<mapsto> ?T, (1, 0) \<mapsto> ?F]"
    by (simp add: buildTileMap_def)
  have int: "integrate ?pos ?vel (1 / 80) PHYSICS_CONFIG = (?p, ?v)"
    by (simp add: integrate_def Let_def addVectors_def scaleVector_def PHYSICS_CONFIG_def)
  have r: "Math_round (3 / 10) = 0" "Math_round 0 = 0"
    by (simp_all add: Math_round_def)
  have fires: "collisionFires ?T ?p"
    by (simp add: collisionFires_def minDist_def colliderRadius_def ballRadius_def Let_def)
  have normal: "collisionNormal ?T ?p = (1, 0)"
    by (rule collisionNormal_axis) simp_all
  have "collideObstacle ?T (?p, ?v)
      = (?p\<lparr>vec_x := vec_x ?p + (minDist ?T - (vec_x ?p - real_of_int (tile_x ?T)) + 0.01)\<rparr>,
         ?v\<lparr>vec_x := - vec_x ?v * 0.7 * 0.9, vec_z := vec_z ?v * 0.7 * 0.9\<rparr>)"
    by (rule collideObstacle_axis [OF _ _ fires]) simp_all
  then have c: "collideObstacle ?T (?p, ?v) = (?p', ?v')"
    by (simp add: minDist_def colliderRadius_def ballRadius_def)
  have "collisions ?tm (?p, ?v) = collideObstacle ?T (?p, ?v)"
  proof (rule collisions_single [where ij = "(0, 0)"])
    show "(0, 0) \<in> set scanOffsets"
      by (simp add: scanOffsets_eq)
    show "?tm (Math_round (vec_x ?p) + fst (0, 0), Math_round (vec_z ?p) + snd (0, 0)) = Some ?T"
      by (simp add: r tm)
    show "tile_type ?T = TREE \<or> tile_type ?T = OBSTACLE"
      by simp
    show "\<forall>kl \<in> set scanOffsets. kl \<noteq> (0, 0) \<longrightarrow>
           collideAt ?tm (Math_round (vec_x ?p) + fst kl, Math_round (vec_z ?p) + snd kl) (?p, ?v) = (?p, ?v)
           \<and> collideAt ?tm (Math_round (vec_x ?p) + fst kl, Math_round (vec_z ?p) + snd kl)
               (collideObstacle ?T (?p, ?v)) = collideObstacle ?T (?p, ?v)"
      by (auto simp: r tm collideAt_def)
  qed
  with c have col: "collisions ?tm (?p, ?v) = (?p', ?v')"
    by simp
  have key: "?tm (tileKey ?p') = Some ?F"
    unfolding tm by (simp add: tileKey_def Math_round_def)
  have gr: "groundResponse ?tm (1 / 80) PHYSICS_CONFIG (?p', ?v')
      = (\<lparr>vec_x = 61 / 100, vec_y = 0, vec_z = 0\<rparr>, \<lparr>vec_x = 0, vec_y = 0, vec_z = 0\<rparr>, None)"
    by (simp add: groundResponse_def floorHeightAt_def key verticalBounce_def groundFriction_def
        horizontalSpeed_axis PHYSICS_CONFIG_def Let_def)
  have "calculateNextState ?pos ?vel (1 / 80) PHYSICS_CONFIG ?tm
      = (\<lparr>vec_x = 61 / 100, vec_y = 0, vec_z = 0\<rparr>, \<lparr>vec_x = 0, vec_y = 0, vec_z = 0\<rparr>, None)"
    unfolding calculateNextState_def int col gr ..
  then have ret: "fst (snd (calculateNextState ?pos ?vel (1 / 80) PHYSICS_CONFIG ?tm))
      = \<lparr>vec_x = 0, vec_y = 0, vec_z = 0\<rparr>"
    by simp
  show ?thesis
    using int fires normal col ret by simp
qed

section \<open>The invariant of the ball state\<close>

lemma groundResponse_water_velocity:
  "groundResponse tileMap dt config pv = (pos, vel, Some ''WATER'') \<Longrightarrow> vel = zeroVector"
  by (auto simp: groundResponse_def Let_def split: if_splits)

lemma calculateNextState_water_velocity:
  "calculateNextState p v dt config tileMap = (pos, vel, Some ''WATER'') \<Longrightarrow> vel = zeroVector"
  unfolding calculateNextState_def by (rule groundResponse_water_velocity)


lemma subStepLoop_settled:
  assumes "settled hole st"
  shows "settled hole (subStepLoop config tileMap hole subDt n st)"
  using assms
proof (induction n arbitrary: st)
  case 0
  then show ?case by simp
next
  case (Suc n)
  obtain pos vel collision where
    step: "calculateNextState (position st) (velocity st) subDt config tileMap = (pos, vel, collision)"
    by (metis prod_cases3)
  show ?case
  proof (cases "collision = Some ''WATER''")
    case True
    with step have "vel = zeroVector"
      using calculateNextState_water_velocity by blast
    with True step Suc.prems show ?thesis
      by (auto simp: Let_def settled_def)
  next
    case False
    with step Suc.prems show ?thesis
      by (auto simp: Let_def settled_def intro!: Suc.IH [unfolded settled_def])
  qed
qed


lemma updateBall_settled:
  "settled hole st \<Longrightarrow> settled hole (updateBall config tileMap hole dt st)"
  unfolding updateBall_def by (rule subStepLoop_settled)

lemma subStepLoop_moving:
  "isMoving (subStepLoop config tileMap hole subDt n st) \<Longrightarrow> isMoving st"
  by (cases "isMoving st") (simp_all add: subStepLoop_not_moving)



lemma applyEvent_consistent:
  assumes "consistent g" and "e = TimerFires \<longrightarrow> \<not> inHole (ballState g)"
  shows "consistent (applyEvent e g)"
proof (cases e)
  case (Shoot v)
  with assms(1) show ?thesis
    by (auto simp: handleShoot_def consistent_def settled_def)
next
  case (Frame time)
  let ?b = "updateBall PHYSICS_CONFIG (tileMapOf g) (holePosition (level g))
              (min ((time - the (lastTime g)) / 1000) 0.1) (ballState g)"
  show ?thesis
  proof (cases "lastTime g \<noteq> None \<and> \<not> isPaused g \<and> isMoving (ballState g)")
    case False
    with Frame assms(1) show ?thesis
      by (auto simp: updatePhysics_def consistent_def Let_def split: option.splits)
  next
    case True
    then have g': "updatePhysics time g = g\<lparr>ballState := ?b, lastTime := Some time\<rparr>"
      by (auto simp: updatePhysics_def Let_def)
    from True assms(1) have ex: "gamePhase g = EXECUTING"
      by (simp add: consistent_def)
    from assms(1) have "settled (holePosition (level g)) ?b"
      by (intro updateBall_settled) (simp add: consistent_def)
    with ex Frame g' show ?thesis
      by (simp add: consistent_def)
  qed
next
  case EffectRuns
  with assms(1) show ?thesis
    by (auto simp: phaseTransition_def consistent_def settled_def)
next
  case TimerFires
  with assms show ?thesis
    by (auto simp: timerFires_def resetBall_def consistent_def settled_def)
next
  case (Restart lvl)
  then show ?thesis
    by (simp add: handleRestart_def freshBall_def consistent_def settled_def)
next
  case (NextLevel lvl)
  then show ?thesis
    by (simp add: handleNextLevel_def freshBall_def consistent_def settled_def)
next
  case TogglePause
  with assms(1) show ?thesis
    by (simp add: consistent_def)
qed


text \<open>
  A reset that fires in the phase OUT_OF_BOUNDS never meets a ball in the hole: only a
  reset that a restart has made stale could.
\<close>

lemma resetsInPhase_noResetWhileHoled:
  "consistent g \<Longrightarrow> resetsInPhase es g \<Longrightarrow> noResetWhileHoled es g"
proof (induction es arbitrary: g)
  case Nil
  then show ?case by simp
next
  case (Cons e es)
  from Cons.prems have safe: "e = TimerFires \<longrightarrow> \<not> inHole (ballState g)"
    by (auto simp: consistent_def)
  with Cons.prems(1) have "consistent (applyEvent e g)"
    by (rule applyEvent_consistent)
  with Cons.prems(2) Cons.IH have "noResetWhileHoled es (applyEvent e g)"
    by simp
  with safe show ?case
    by simp
qed



subsection \<open>A run on a small level\<close>














end
